theory Spec2Isabelle
  imports Main
begin

section \<open>The record store\<close>

text \<open>
  The schema of the migration: five tables of the \<open>public\<close> schema and the identities of
  \<open>auth.users\<close>. A table is the list of its rows in storage order. Identifiers are kept
  as their text (they are compared for equality only); a \<open>DATE\<close> is a day number, a
  \<open>TIME\<close> the microseconds since midnight, a \<open>TIMESTAMP WITH TIME ZONE\<close> the
  microseconds since the epoch. The client's interfaces type \<open>completed\<close> as a boolean,
  and no statement of the application writes \<open>completed\<close>, \<open>created_at\<close> or
  \<open>updated_at\<close> other than through the column's \<open>DEFAULT\<close> or the update of the
  flag: these columns are read at their non-null type.
\<close>

type_synonym uuid = string
type_synonym date = int
type_synonym time = int
type_synonym timestamptz = int

datatype json_value = Json_null | Json_string string | Json_other string

record auth_user =
  u_id :: uuid
  u_raw_user_meta_data :: "(string \<rightharpoonup> json_value) option"

record profile =
  p_id :: uuid
  p_full_name :: "string option"
  p_created_at :: timestamptz
  p_updated_at :: timestamptz

record task =
  t_id :: uuid
  t_user_id :: uuid
  t_title :: string
  t_completed :: bool
  t_task_date :: date
  t_alarm_time :: "time option"
  t_created_at :: timestamptz
  t_updated_at :: timestamptz

record time_block =
  b_id :: uuid
  b_user_id :: uuid
  b_title :: string
  b_block_date :: date
  b_start_time :: time
  b_end_time :: time
  b_description :: "string option"
  b_created_at :: timestamptz

datatype goal_type = Yearly | Monthly

record goal =
  g_id :: uuid
  g_user_id :: uuid
  g_title :: string
  g_description :: "string option"
  g_goal_type :: goal_type
  g_target_date :: "date option"
  g_completed :: bool
  g_created_at :: timestamptz
  g_updated_at :: timestamptz

record milestone =
  m_id :: uuid
  m_user_id :: uuid
  m_goal_id :: "uuid option"
  m_title :: string
  m_description :: "string option"
  m_completed :: bool
  m_target_date :: "date option"
  m_created_at :: timestamptz
  m_updated_at :: timestamptz

record store =
  auth_users :: "auth_user list"
  profiles :: "profile list"
  tasks :: "task list"
  time_blocks :: "time_block list"
  goals :: "goal list"
  milestones :: "milestone list"

text \<open>
  What a request can come back with. \<open>Transport_failure\<close> stands for a request that did
  not complete; the others are the store's own refusals.
\<close>

datatype pg_error =
    Unique_violation
  | Foreign_key_violation
  | Not_null_violation
  | Row_security_violation
  | Invalid_text_representation
  | Transport_failure

text \<open>The \<open>{ data, error }\<close> object every call of the client library resolves to.\<close>

record 'a response =
  data :: "'a option"
  error :: "pg_error option"

definition failed :: "pg_error \<Rightarrow> 'a response" where
  "failed e = \<lparr>data = None, error = Some e\<rparr>"

definition succeeded :: "'a \<Rightarrow> 'a response" where
  "succeeded d = \<lparr>data = Some d, error = None\<rparr>"

text \<open>
  The store's input functions for \<open>DATE\<close> and \<open>TIME\<close> literals are not part of the
  repository: they are parameters. \<open>None\<close> is a literal the store rejects.
\<close>

record pg_input =
  date_in :: "string \<Rightarrow> date option"
  time_in :: "string \<Rightarrow> time option"

subsection \<open>Row-level security and scoped reads\<close>

text \<open>
  Every policy of the four entity tables is \<open>USING (auth.uid() = user_id)\<close>.
  \<open>auth.uid()\<close> is \<open>NULL\<close> for a request without an identity, and then the comparison
  is not true for any row.
\<close>

definition auth_uid_is :: "uuid option \<Rightarrow> uuid \<Rightarrow> bool" where
  "auth_uid_is uid row_user_id = (uid = Some row_user_id)"

text \<open>
  \<open>select('*')\<close> with equality filters: the rows that pass the policy and every filter,
  in storage order.
\<close>

definition pg_select :: "('r \<Rightarrow> bool) \<Rightarrow> ('r \<Rightarrow> bool) \<Rightarrow> 'r list \<Rightarrow> 'r list" where
  "pg_select policy filters rows = filter (\<lambda>r. policy r \<and> filters r) rows"

text \<open>\<open>.order(column, { ascending })\<close>: a sort on the column, reversed when descending.\<close>

definition order_by :: "('r \<Rightarrow> 'k::linorder) \<Rightarrow> bool \<Rightarrow> 'r list \<Rightarrow> 'r list" where
  "order_by column ascending rows =
     (if ascending then sort_key column rows else rev (sort_key column rows))"

text \<open>
  The four reads of the views, as the store answers them for a request made under the
  identity \<open>uid\<close> with the filter value \<open>user_id\<close> (the client's \<open>user.id\<close>).
  \<open>fail\<close> is the transport failure of this request, if any.
\<close>

definition select_tasks ::
  "pg_input \<Rightarrow> uuid option \<Rightarrow> store \<Rightarrow> uuid \<Rightarrow> string \<Rightarrow> pg_error option \<Rightarrow> task list response"
where
  "select_tasks io uid s user_id today fail =
     (case fail of
        Some e \<Rightarrow> failed e
      | None \<Rightarrow>
          (case date_in io today of
             None \<Rightarrow> failed Invalid_text_representation
           | Some d \<Rightarrow>
               succeeded
                 (order_by t_created_at True
                    (pg_select (\<lambda>r. auth_uid_is uid (t_user_id r))
                       (\<lambda>r. t_user_id r = user_id \<and> t_task_date r = d) (tasks s)))))"

definition select_time_blocks ::
  "pg_input \<Rightarrow> uuid option \<Rightarrow> store \<Rightarrow> uuid \<Rightarrow> string \<Rightarrow> pg_error option \<Rightarrow>
     time_block list response"
where
  "select_time_blocks io uid s user_id today fail =
     (case fail of
        Some e \<Rightarrow> failed e
      | None \<Rightarrow>
          (case date_in io today of
             None \<Rightarrow> failed Invalid_text_representation
           | Some d \<Rightarrow>
               succeeded
                 (order_by b_start_time True
                    (pg_select (\<lambda>r. auth_uid_is uid (b_user_id r))
                       (\<lambda>r. b_user_id r = user_id \<and> b_block_date r = d) (time_blocks s)))))"

definition select_goals ::
  "uuid option \<Rightarrow> store \<Rightarrow> uuid \<Rightarrow> pg_error option \<Rightarrow> goal list response"
where
  "select_goals uid s user_id fail =
     (case fail of
        Some e \<Rightarrow> failed e
      | None \<Rightarrow>
          succeeded
            (order_by g_created_at False
               (pg_select (\<lambda>r. auth_uid_is uid (g_user_id r))
                  (\<lambda>r. g_user_id r = user_id) (goals s))))"

definition select_milestones ::
  "uuid option \<Rightarrow> store \<Rightarrow> uuid \<Rightarrow> pg_error option \<Rightarrow> milestone list response"
where
  "select_milestones uid s user_id fail =
     (case fail of
        Some e \<Rightarrow> failed e
      | None \<Rightarrow>
          succeeded
            (order_by m_created_at False
               (pg_select (\<lambda>r. auth_uid_is uid (m_user_id r))
                  (\<lambda>r. m_user_id r = user_id) (milestones s))))"

text \<open>
  The second read of the milestones view, \<open>select('id, title')\<close> on the goals, without
  an order: the projected rows in storage order.
\<close>

definition select_goal_titles ::
  "uuid option \<Rightarrow> store \<Rightarrow> uuid \<Rightarrow> pg_error option \<Rightarrow> (uuid \<times> string) list response"
where
  "select_goal_titles uid s user_id fail =
     (case fail of
        Some e \<Rightarrow> failed e
      | None \<Rightarrow>
          succeeded
            (map (\<lambda>r. (g_id r, g_title r))
               (pg_select (\<lambda>r. auth_uid_is uid (g_user_id r))
                  (\<lambda>r. g_user_id r = user_id) (goals s))))"

text \<open>The rows a response carries: none when it carries an error.\<close>

definition returned :: "'r list response \<Rightarrow> 'r list" where
  "returned r = (case data r of None \<Rightarrow> [] | Some rows \<Rightarrow> rows)"

section \<open>The views\<close>

text \<open>
  The object an insert sends names columns of its table. The columns a client names are
  those without a \<open>DEFAULT\<close>; \<open>id\<close>, \<open>completed\<close> and the two timestamps are left
  to the store.
\<close>

datatype task_column = Task_user_id | Task_title | Task_task_date | Task_alarm_time

datatype time_block_column =
  Block_user_id | Block_title | Block_description | Block_block_date | Block_start_time
  | Block_end_time

datatype milestone_column =
  Milestone_user_id | Milestone_goal_id | Milestone_title | Milestone_description
  | Milestone_target_date

text \<open>
  What a handler does besides changing its view's state, in the order it does it: the
  requests it issues, the notifications it shows, the sounds it plays.
\<close>

datatype effect =
    Request_select string
  | Request_update string uuid bool
  | Request_insert_task "(task_column \<times> json_value) list"
  | Request_insert_time_block "(time_block_column \<times> json_value) list"
  | Request_insert_milestone "(milestone_column \<times> json_value) list"
  | Set_loading bool
  | Toast_error string
  | Toast_success string
  | Console_error string
  | Sound_complete
  | Sound_toggle
  | On_open_change bool

fun is_select :: "effect \<Rightarrow> bool" where
  "is_select (Request_select table) = True"
| "is_select other = False"

record today_view =
  tv_tasks :: "task list"
  tv_timeBlocks :: "time_block list"

record goals_view =
  gv_goals :: "goal list"

record milestones_view =
  mv_milestones :: "milestone list"
  mv_goals :: "(uuid \<times> string) list"

subsection \<open>Loading\<close>

text \<open>
  Each loader issues its read, and when the response is there either reports the error
  and leaves the list as it is, or replaces the list by \<open>data || []\<close>. \<open>s\<close> is the
  store as it is when the read is served.
\<close>

definition fetchTasks ::
  "pg_input \<Rightarrow> uuid option \<Rightarrow> store \<Rightarrow> uuid \<Rightarrow> string \<Rightarrow> pg_error option \<Rightarrow> today_view \<Rightarrow>
     today_view \<times> effect list"
where
  "fetchTasks io uid s user_id today fail v =
     (let r = select_tasks io uid s user_id today fail in
      if error r \<noteq> None then (v, [Request_select ''tasks'', Toast_error ''Failed to load tasks''])
      else (v\<lparr>tv_tasks := (case data r of None \<Rightarrow> [] | Some rows \<Rightarrow> rows)\<rparr>,
            [Request_select ''tasks'']))"

definition fetchTimeBlocks ::
  "pg_input \<Rightarrow> uuid option \<Rightarrow> store \<Rightarrow> uuid \<Rightarrow> string \<Rightarrow> pg_error option \<Rightarrow> today_view \<Rightarrow>
     today_view \<times> effect list"
where
  "fetchTimeBlocks io uid s user_id today fail v =
     (let r = select_time_blocks io uid s user_id today fail in
      if error r \<noteq> None
      then (v, [Request_select ''time_blocks'', Toast_error ''Failed to load time blocks''])
      else (v\<lparr>tv_timeBlocks := (case data r of None \<Rightarrow> [] | Some rows \<Rightarrow> rows)\<rparr>,
            [Request_select ''time_blocks'']))"

definition fetchGoals ::
  "uuid option \<Rightarrow> store \<Rightarrow> uuid \<Rightarrow> pg_error option \<Rightarrow> goals_view \<Rightarrow> goals_view \<times> effect list"
where
  "fetchGoals uid s user_id fail v =
     (let r = select_goals uid s user_id fail in
      if error r \<noteq> None then (v, [Request_select ''goals'', Toast_error ''Failed to load goals''])
      else (v\<lparr>gv_goals := (case data r of None \<Rightarrow> [] | Some rows \<Rightarrow> rows)\<rparr>,
            [Request_select ''goals'']))"

text \<open>
  The loader of the milestones view awaits two reads in turn; \<open>s\<close> serves the
  milestones, \<open>s'\<close> the goals.
\<close>

definition fetchData ::
  "uuid option \<Rightarrow> store \<Rightarrow> store \<Rightarrow> uuid \<Rightarrow> pg_error option \<Rightarrow> pg_error option \<Rightarrow>
     milestones_view \<Rightarrow> milestones_view \<times> effect list"
where
  "fetchData uid s s' user_id fail fail' v =
     (let r = select_milestones uid s user_id fail;
          (v1, e1) =
            (if error r \<noteq> None
             then (v, [Request_select ''milestones'', Toast_error ''Failed to load milestones''])
             else (v\<lparr>mv_milestones := (case data r of None \<Rightarrow> [] | Some rows \<Rightarrow> rows)\<rparr>,
                   [Request_select ''milestones'']));
          r' = select_goal_titles uid s' user_id fail';
          (v2, e2) =
            (if error r' \<noteq> None
             then (v1, [Request_select ''goals'', Console_error ''Failed to load goals''])
             else (v1\<lparr>mv_goals := (case data r' of None \<Rightarrow> [] | Some rows \<Rightarrow> rows)\<rparr>,
                   [Request_select ''goals'']))
      in (v2, e1 @ e2))"

subsection \<open>Toggling completion\<close>

text \<open>
  A toggle runs in two parts. Up to its \<open>await\<close> it flips the flag of the records with
  the given id in the list, plays a sound and issues the update. When the update is
  answered (\<open>err\<close> is its error, if any) it reports a failure and writes
  \<open>currentStatus\<close> back. Other handlers may run in between.
\<close>

definition toggleTask_start :: "uuid \<Rightarrow> bool \<Rightarrow> today_view \<Rightarrow> today_view \<times> effect list" where
  "toggleTask_start taskId currentStatus v =
     (let newStatus = \<not> currentStatus in
      (v\<lparr>tv_tasks :=
            map (\<lambda>t. if t_id t = taskId then t\<lparr>t_completed := newStatus\<rparr> else t) (tv_tasks v)\<rparr>,
       [if newStatus then Sound_complete else Sound_toggle,
        Request_update ''tasks'' taskId newStatus]))"

definition toggleTask_settle ::
  "uuid \<Rightarrow> bool \<Rightarrow> pg_error option \<Rightarrow> today_view \<Rightarrow> today_view \<times> effect list"
where
  "toggleTask_settle taskId currentStatus err v =
     (if err \<noteq> None
      then (v\<lparr>tv_tasks :=
                 map (\<lambda>t. if t_id t = taskId then t\<lparr>t_completed := currentStatus\<rparr> else t)
                   (tv_tasks v)\<rparr>,
            [Toast_error ''Failed to update task''])
      else (v, []))"

definition toggleGoal_start :: "uuid \<Rightarrow> bool \<Rightarrow> goals_view \<Rightarrow> goals_view \<times> effect list" where
  "toggleGoal_start goalId currentStatus v =
     (let newStatus = \<not> currentStatus in
      (v\<lparr>gv_goals :=
            map (\<lambda>g. if g_id g = goalId then g\<lparr>g_completed := newStatus\<rparr> else g) (gv_goals v)\<rparr>,
       [if newStatus then Sound_complete else Sound_toggle,
        Request_update ''goals'' goalId newStatus]))"

definition toggleGoal_settle ::
  "uuid \<Rightarrow> bool \<Rightarrow> pg_error option \<Rightarrow> goals_view \<Rightarrow> goals_view \<times> effect list"
where
  "toggleGoal_settle goalId currentStatus err v =
     (if err \<noteq> None
      then (v\<lparr>gv_goals :=
                 map (\<lambda>g. if g_id g = goalId then g\<lparr>g_completed := currentStatus\<rparr> else g)
                   (gv_goals v)\<rparr>,
            [Toast_error ''Failed to update goal''])
      else (v, []))"

definition toggleMilestone_start ::
  "uuid \<Rightarrow> bool \<Rightarrow> milestones_view \<Rightarrow> milestones_view \<times> effect list"
where
  "toggleMilestone_start milestoneId currentStatus v =
     (let newStatus = \<not> currentStatus in
      (v\<lparr>mv_milestones :=
            map (\<lambda>m. if m_id m = milestoneId then m\<lparr>m_completed := newStatus\<rparr> else m)
              (mv_milestones v)\<rparr>,
       [if newStatus then Sound_complete else Sound_toggle,
        Request_update ''milestones'' milestoneId newStatus]))"

definition toggleMilestone_settle ::
  "uuid \<Rightarrow> bool \<Rightarrow> pg_error option \<Rightarrow> milestones_view \<Rightarrow> milestones_view \<times> effect list"
where
  "toggleMilestone_settle milestoneId currentStatus err v =
     (if err \<noteq> None
      then (v\<lparr>mv_milestones :=
                 map (\<lambda>m. if m_id m = milestoneId then m\<lparr>m_completed := currentStatus\<rparr> else m)
                   (mv_milestones v)\<rparr>,
            [Toast_error ''Failed to update milestone''])
      else (v, []))"

text \<open>
  The whole call with its round trip awaited and nothing in between, as a checkbox
  starts it: \<open>onCheckedChange\<close> passes the id and the flag of the record it renders.
\<close>

definition toggleTask ::
  "uuid \<Rightarrow> bool \<Rightarrow> pg_error option \<Rightarrow> today_view \<Rightarrow> today_view \<times> effect list"
where
  "toggleTask taskId currentStatus err v =
     (let (v1, e1) = toggleTask_start taskId currentStatus v;
          (v2, e2) = toggleTask_settle taskId currentStatus err v1
      in (v2, e1 @ e2))"

definition toggleGoal ::
  "uuid \<Rightarrow> bool \<Rightarrow> pg_error option \<Rightarrow> goals_view \<Rightarrow> goals_view \<times> effect list"
where
  "toggleGoal goalId currentStatus err v =
     (let (v1, e1) = toggleGoal_start goalId currentStatus v;
          (v2, e2) = toggleGoal_settle goalId currentStatus err v1
      in (v2, e1 @ e2))"

definition toggleMilestone ::
  "uuid \<Rightarrow> bool \<Rightarrow> pg_error option \<Rightarrow> milestones_view \<Rightarrow> milestones_view \<times> effect list"
where
  "toggleMilestone milestoneId currentStatus err v =
     (let (v1, e1) = toggleMilestone_start milestoneId currentStatus v;
          (v2, e2) = toggleMilestone_settle milestoneId currentStatus err v1
      in (v2, e1 @ e2))"

definition onCheckedChange_task ::
  "task \<Rightarrow> pg_error option \<Rightarrow> today_view \<Rightarrow> today_view \<times> effect list"
where
  "onCheckedChange_task task err v = toggleTask (t_id task) (t_completed task) err v"

definition onCheckedChange_goal ::
  "goal \<Rightarrow> pg_error option \<Rightarrow> goals_view \<Rightarrow> goals_view \<times> effect list"
where
  "onCheckedChange_goal goal err v = toggleGoal (g_id goal) (g_completed goal) err v"

definition onCheckedChange_milestone ::
  "milestone \<Rightarrow> pg_error option \<Rightarrow> milestones_view \<Rightarrow> milestones_view \<times> effect list"
where
  "onCheckedChange_milestone milestone err v =
     toggleMilestone (m_id milestone) (m_completed milestone) err v"

section \<open>The Add-Item modal\<close>

text \<open>
  \<open>FormData.get\<close> yields the text of a named field, or \<open>null\<close> when the form has no
  such field. \<open>as_string\<close> is the bare \<open>as string\<close>, \<open>or_null\<close> is \<open>as string || null\<close>:
  the empty text is falsy.
\<close>

type_synonym form_data = "string \<rightharpoonup> string"

definition as_string :: "string option \<Rightarrow> json_value" where
  "as_string v = (case v of None \<Rightarrow> Json_null | Some text \<Rightarrow> Json_string text)"

definition or_null :: "string option \<Rightarrow> json_value" where
  "or_null v =
     (case v of None \<Rightarrow> Json_null | Some text \<Rightarrow> if text = [] then Json_null else Json_string text)"

text \<open>
  The handlers close over \<open>today\<close>, which the component computes each time it renders.
  \<open>user\<close> is the \<open>user.id\<close> of the signed-in user, if there is one; \<open>err\<close> is the
  error of the insert's response, if any.
\<close>

definition task_payload :: "string \<Rightarrow> uuid \<Rightarrow> form_data \<Rightarrow> (task_column \<times> json_value) list" where
  "task_payload today user_id formData =
     [(Task_user_id, Json_string user_id),
      (Task_title, as_string (formData ''task-title'')),
      (Task_task_date, Json_string today),
      (Task_alarm_time, or_null (formData ''alarm-time''))]"

definition handleAddTask ::
  "string \<Rightarrow> uuid option \<Rightarrow> form_data \<Rightarrow> pg_error option \<Rightarrow> effect list"
where
  "handleAddTask today user formData err =
     (case user of
        None \<Rightarrow> []
      | Some user_id \<Rightarrow>
          [Set_loading True, Request_insert_task (task_payload today user_id formData)]
          @ (if err \<noteq> None then [Toast_error ''Failed to add task'']
             else [Toast_success ''Task added!'', On_open_change False])
          @ [Set_loading False])"

definition time_block_payload ::
  "string \<Rightarrow> uuid \<Rightarrow> form_data \<Rightarrow> (time_block_column \<times> json_value) list"
where
  "time_block_payload today user_id formData =
     [(Block_user_id, Json_string user_id),
      (Block_title, as_string (formData ''block-title'')),
      (Block_description, or_null (formData ''block-description'')),
      (Block_block_date, Json_string today),
      (Block_start_time, as_string (formData ''start-time'')),
      (Block_end_time, as_string (formData ''end-time''))]"

definition handleAddTimeBlock ::
  "string \<Rightarrow> uuid option \<Rightarrow> form_data \<Rightarrow> pg_error option \<Rightarrow> effect list"
where
  "handleAddTimeBlock today user formData err =
     (case user of
        None \<Rightarrow> []
      | Some user_id \<Rightarrow>
          [Set_loading True, Request_insert_time_block (time_block_payload today user_id formData)]
          @ (if err \<noteq> None then [Toast_error ''Failed to add time block'']
             else [Toast_success ''Time block added!'', On_open_change False])
          @ [Set_loading False])"

definition milestone_payload :: "uuid \<Rightarrow> form_data \<Rightarrow> (milestone_column \<times> json_value) list" where
  "milestone_payload user_id formData =
     [(Milestone_user_id, Json_string user_id),
      (Milestone_title, as_string (formData ''milestone-title'')),
      (Milestone_description, or_null (formData ''milestone-description'')),
      (Milestone_target_date, or_null (formData ''milestone-date''))]"

definition handleAddMilestone :: "uuid option \<Rightarrow> form_data \<Rightarrow> pg_error option \<Rightarrow> effect list" where
  "handleAddMilestone user formData err =
     (case user of
        None \<Rightarrow> []
      | Some user_id \<Rightarrow>
          [Set_loading True, Request_insert_milestone (milestone_payload user_id formData)]
          @ (if err \<noteq> None then [Toast_error ''Failed to add milestone'']
             else [Toast_success ''Milestone added!'', On_open_change False])
          @ [Set_loading False])"

text \<open>
  Each handler runs in two parts, as a toggle does. Up to its \<open>await\<close> it sets the
  loading flag and issues the insert; when the insert is answered it shows a notification,
  closes the modal after a success and clears the flag. The handlers above are the two
  parts in sequence. Without a signed-in user the first part does nothing and there is
  no second part.
\<close>

definition handleAddTask_start :: "string \<Rightarrow> uuid option \<Rightarrow> form_data \<Rightarrow> effect list" where
  "handleAddTask_start today user formData =
     (case user of
        None \<Rightarrow> []
      | Some user_id \<Rightarrow>
          [Set_loading True, Request_insert_task (task_payload today user_id formData)])"

definition handleAddTask_settle :: "pg_error option \<Rightarrow> effect list" where
  "handleAddTask_settle err =
     (if err \<noteq> None then [Toast_error ''Failed to add task'']
      else [Toast_success ''Task added!'', On_open_change False])
     @ [Set_loading False]"

definition handleAddTimeBlock_start :: "string \<Rightarrow> uuid option \<Rightarrow> form_data \<Rightarrow> effect list" where
  "handleAddTimeBlock_start today user formData =
     (case user of
        None \<Rightarrow> []
      | Some user_id \<Rightarrow>
          [Set_loading True,
           Request_insert_time_block (time_block_payload today user_id formData)])"

definition handleAddTimeBlock_settle :: "pg_error option \<Rightarrow> effect list" where
  "handleAddTimeBlock_settle err =
     (if err \<noteq> None then [Toast_error ''Failed to add time block'']
      else [Toast_success ''Time block added!'', On_open_change False])
     @ [Set_loading False]"

text \<open>
  The modal over time. The component body computes \<open>today\<close>, so every render binds
  \<open>today\<close> to the calendar day of that moment, the day
  \<open>format(new Date(), 'yyyy-MM-dd')\<close> yields then; the handlers of a render keep its
  \<open>today\<close> until the next render. The component renders again when its \<open>loading\<close>
  state changes, when its \<open>open\<close> property changes, and whenever its parent renders
  for another reason (\<open>Render\<close>). Setting the state or the property to the value it
  already has changes nothing. The day changes as time passes (\<open>Day_changes\<close>); a
  submit runs the first part of the handler of the latest render; the answer of its
  insert (\<open>Task_settles\<close>, \<open>Time_block_settles\<close>) runs the second part. Every insert
  is logged with the day at which it was submitted.
\<close>

record modal =
  clock_day :: string
  bound_today :: string
  loading :: bool
  modal_open :: bool
  submitted :: "(string \<times> effect) list"

datatype modal_event =
    Day_changes string
  | Render
  | Open_change bool
  | Submit_task "uuid option" form_data
  | Submit_time_block "uuid option" form_data
  | Task_settles "pg_error option"
  | Time_block_settles "pg_error option"

fun is_insert :: "effect \<Rightarrow> bool" where
  "is_insert (Request_insert_task payload) = True"
| "is_insert (Request_insert_time_block payload) = True"
| "is_insert (Request_insert_milestone payload) = True"
| "is_insert other = False"

text \<open>What one effect of a handler does to the modal.\<close>

definition modal_effect :: "modal \<Rightarrow> effect \<Rightarrow> modal" where
  "modal_effect m e =
     (case e of
        Set_loading b \<Rightarrow>
          if loading m = b then m else m\<lparr>loading := b, bound_today := clock_day m\<rparr>
      | On_open_change b \<Rightarrow>
          if modal_open m = b then m else m\<lparr>modal_open := b, bound_today := clock_day m\<rparr>
      | other \<Rightarrow>
          if is_insert e then m\<lparr>submitted := submitted m @ [(clock_day m, e)]\<rparr> else m)"

fun modal_step :: "modal \<Rightarrow> modal_event \<Rightarrow> modal" where
  "modal_step m (Day_changes day) = m\<lparr>clock_day := day\<rparr>"
| "modal_step m Render = m\<lparr>bound_today := clock_day m\<rparr>"
| "modal_step m (Open_change b) = modal_effect m (On_open_change b)"
| "modal_step m (Submit_task user formData) =
     foldl modal_effect m (handleAddTask_start (bound_today m) user formData)"
| "modal_step m (Submit_time_block user formData) =
     foldl modal_effect m (handleAddTimeBlock_start (bound_today m) user formData)"
| "modal_step m (Task_settles err) = foldl modal_effect m (handleAddTask_settle err)"
| "modal_step m (Time_block_settles err) = foldl modal_effect m (handleAddTimeBlock_settle err)"

text \<open>
  A modal mounted, closed, on the given day (the mount is its first render), then the
  events in turn.
\<close>

definition AddItemModal :: "string \<Rightarrow> modal_event list \<Rightarrow> modal" where
  "AddItemModal day events =
     foldl modal_step
       \<lparr>clock_day = day, bound_today = day, loading = False, modal_open = False,
        submitted = []\<rparr>
       events"

text \<open>The date an insert carries, if it is an insert of a task or of a time block.\<close>

fun date_field :: "effect \<Rightarrow> json_value option" where
  "date_field (Request_insert_task payload) = map_of payload Task_task_date"
| "date_field (Request_insert_time_block payload) = map_of payload Block_block_date"
| "date_field other = None"

section \<open>Writes as the store executes them\<close>

text \<open>
  The text a payload supplies for a column: none when the column is not named or is
  \<open>null\<close>. A text is cast to the column's type by the store's input function.
\<close>

definition column_text :: "('c \<times> json_value) list \<Rightarrow> 'c \<Rightarrow> string option" where
  "column_text payload c =
     (case map_of payload c of
        None \<Rightarrow> None
      | Some Json_null \<Rightarrow> None
      | Some (Json_string text) \<Rightarrow> Some text
      | Some (Json_other text) \<Rightarrow> Some text)"

definition cast_column :: "(string \<Rightarrow> 'v option) \<Rightarrow> string option \<Rightarrow> pg_error + 'v option" where
  "cast_column input text =
     (case text of
        None \<Rightarrow> Inr None
      | Some literal \<Rightarrow>
          (case input literal of
             None \<Rightarrow> Inl Invalid_text_representation
           | Some v \<Rightarrow> Inr (Some v)))"

text \<open>
  \<open>INSERT INTO public.tasks\<close> under the identity \<open>uid\<close> at time \<open>now\<close>, with \<open>new_id\<close>
  the value of \<open>gen_random_uuid()\<close>: the casts, the policy's \<open>WITH CHECK\<close>, the
  \<open>NOT NULL\<close> columns, the primary key, the reference to \<open>auth.users\<close>. Columns the
  payload does not name take their \<open>DEFAULT\<close>, or \<open>NULL\<close> without one.
\<close>

definition insert_tasks ::
  "pg_input \<Rightarrow> uuid option \<Rightarrow> timestamptz \<Rightarrow> uuid \<Rightarrow> (task_column \<times> json_value) list \<Rightarrow> store \<Rightarrow>
     pg_error + task \<times> store"
where
  "insert_tasks io uid now new_id payload s =
     (case cast_column (date_in io) (column_text payload Task_task_date) of
        Inl e \<Rightarrow> Inl e
      | Inr task_date \<Rightarrow>
     (case cast_column (time_in io) (column_text payload Task_alarm_time) of
        Inl e \<Rightarrow> Inl e
      | Inr alarm_time \<Rightarrow>
     (case column_text payload Task_user_id of
        None \<Rightarrow> Inl Row_security_violation
      | Some user_id \<Rightarrow>
          if \<not> auth_uid_is uid user_id then Inl Row_security_violation
          else
            (case (column_text payload Task_title, task_date) of
               (Some title, Some d) \<Rightarrow>
                 if new_id \<in> set (map t_id (tasks s)) then Inl Unique_violation
                 else if user_id \<notin> set (map u_id (auth_users s)) then Inl Foreign_key_violation
                 else
                   (let row =
                      \<lparr>t_id = new_id, t_user_id = user_id, t_title = title, t_completed = False,
                       t_task_date = d, t_alarm_time = alarm_time, t_created_at = now,
                       t_updated_at = now\<rparr>
                    in Inr (row, s\<lparr>tasks := tasks s @ [row]\<rparr>))
             | other \<Rightarrow> Inl Not_null_violation))))"

text \<open>
  \<open>INSERT INTO public.milestones\<close>. \<open>goal_id\<close> has no \<open>DEFAULT\<close> and may be \<open>NULL\<close>;
  when it is not, it must be the id of a goal.
\<close>

definition insert_milestones ::
  "pg_input \<Rightarrow> uuid option \<Rightarrow> timestamptz \<Rightarrow> uuid \<Rightarrow> (milestone_column \<times> json_value) list \<Rightarrow>
     store \<Rightarrow> pg_error + milestone \<times> store"
where
  "insert_milestones io uid now new_id payload s =
     (case cast_column (date_in io) (column_text payload Milestone_target_date) of
        Inl e \<Rightarrow> Inl e
      | Inr target_date \<Rightarrow>
     (case column_text payload Milestone_user_id of
        None \<Rightarrow> Inl Row_security_violation
      | Some user_id \<Rightarrow>
          if \<not> auth_uid_is uid user_id then Inl Row_security_violation
          else
            (case column_text payload Milestone_title of
               None \<Rightarrow> Inl Not_null_violation
             | Some title \<Rightarrow>
                 if new_id \<in> set (map m_id (milestones s)) then Inl Unique_violation
                 else if user_id \<notin> set (map u_id (auth_users s)) then Inl Foreign_key_violation
                 else if (case column_text payload Milestone_goal_id of
                            None \<Rightarrow> False
                          | Some goal_id \<Rightarrow> goal_id \<notin> set (map g_id (goals s)))
                 then Inl Foreign_key_violation
                 else
                   (let row =
                      \<lparr>m_id = new_id, m_user_id = user_id,
                       m_goal_id = column_text payload Milestone_goal_id, m_title = title,
                       m_description = column_text payload Milestone_description,
                       m_completed = False, m_target_date = target_date, m_created_at = now,
                       m_updated_at = now\<rparr>
                    in Inr (row, s\<lparr>milestones := milestones s @ [row]\<rparr>)))))"

text \<open>
  \<open>DELETE FROM public.goals WHERE id = goalId\<close> under the identity \<open>uid\<close>. The policy
  lets the statement see the requester's goals only. \<open>milestones.goal_id\<close> is declared
  \<open>REFERENCES public.goals(id) ON DELETE CASCADE\<close>: the milestones that reference a
  deleted goal go with it. No other table references the goals or the milestones.
\<close>

definition delete_goals :: "uuid option \<Rightarrow> uuid \<Rightarrow> store \<Rightarrow> store" where
  "delete_goals uid goalId s =
     (let deleted = pg_select (\<lambda>g. auth_uid_is uid (g_user_id g)) (\<lambda>g. g_id g = goalId) (goals s)
      in s\<lparr>goals := filter (\<lambda>g. g \<notin> set deleted) (goals s),
           milestones :=
             filter
               (\<lambda>m. case m_goal_id m of
                      None \<Rightarrow> True
                    | Some goal_id \<Rightarrow> goal_id \<notin> set (map g_id deleted))
               (milestones s)\<rparr>)"

subsection \<open>Account creation\<close>

text \<open>
  \<open>raw_user_meta_data->>'full_name'\<close>: the text of the field, \<open>NULL\<close> when the metadata
  is \<open>NULL\<close>, has no such field, or holds a JSON \<open>null\<close> there. \<open>Json_other\<close> carries
  the text of a value that is not a string.
\<close>

definition json_field_text :: "(string \<rightharpoonup> json_value) option \<Rightarrow> string \<Rightarrow> string option" where
  "json_field_text metadata field =
     (case metadata of
        None \<Rightarrow> None
      | Some object \<Rightarrow>
          (case object field of
             None \<Rightarrow> None
           | Some Json_null \<Rightarrow> None
           | Some (Json_string text) \<Rightarrow> Some text
           | Some (Json_other text) \<Rightarrow> Some text))"

definition coalesce :: "'a option \<Rightarrow> 'a \<Rightarrow> 'a" where
  "coalesce v fallback = (case v of None \<Rightarrow> fallback | Some x \<Rightarrow> x)"

text \<open>
  The trigger function, run for the row \<open>NEW\<close> of \<open>auth.users\<close> after its insertion.
  It is \<open>SECURITY DEFINER\<close>: the policies of \<open>profiles\<close> do not apply to its insert;
  the primary key of \<open>profiles\<close> and its reference to \<open>auth.users\<close> do.
\<close>

definition handle_new_user :: "timestamptz \<Rightarrow> auth_user \<Rightarrow> store \<Rightarrow> pg_error + store" where
  "handle_new_user now NEW s =
     (if u_id NEW \<in> set (map p_id (profiles s)) then Inl Unique_violation
      else if u_id NEW \<notin> set (map u_id (auth_users s)) then Inl Foreign_key_violation
      else
        Inr (s\<lparr>profiles := profiles s @
                 [\<lparr>p_id = u_id NEW,
                   p_full_name =
                     Some (coalesce (json_field_text (u_raw_user_meta_data NEW) ''full_name'') []),
                   p_created_at = now, p_updated_at = now\<rparr>]\<rparr>))"

text \<open>
  \<open>INSERT INTO auth.users\<close> with its trigger \<open>on_auth_user_created\<close>: an error of the
  trigger function undoes the insertion.
\<close>

definition insert_auth_users :: "timestamptz \<Rightarrow> auth_user \<Rightarrow> store \<Rightarrow> pg_error + store" where
  "insert_auth_users now NEW s =
     (if u_id NEW \<in> set (map u_id (auth_users s)) then Inl Unique_violation
      else handle_new_user now NEW (s\<lparr>auth_users := auth_users s @ [NEW]\<rparr>))"

section \<open>Example data\<close>

text \<open>
  A store with two identities, used to run the definitions on concrete inputs.
\<close>

definition example_input :: pg_input where
  "example_input =
     \<lparr>date_in = (\<lambda>text. if text = ''2025-03-01'' then Some 20148
                         else if text = ''2025-03-02'' then Some 20149 else None),
      time_in = (\<lambda>text. if text = ''09:00'' then Some 32400000000 else None)\<rparr>"

definition alice_task :: task where
  "alice_task =
     \<lparr>t_id = ''t1'', t_user_id = ''alice'', t_title = ''Review proposal'', t_completed = False,
      t_task_date = 20148, t_alarm_time = None, t_created_at = 100, t_updated_at = 100\<rparr>"

definition bob_task :: task where
  "bob_task =
     \<lparr>t_id = ''t2'', t_user_id = ''bob'', t_title = ''Call home'', t_completed = True,
      t_task_date = 20148, t_alarm_time = None, t_created_at = 50, t_updated_at = 60\<rparr>"

definition alice_goal :: goal where
  "alice_goal =
     \<lparr>g_id = ''g1'', g_user_id = ''alice'', g_title = ''Learn Spanish'', g_description = None,
      g_goal_type = Yearly, g_target_date = None, g_completed = False, g_created_at = 10,
      g_updated_at = 10\<rparr>"

definition bob_goal :: goal where
  "bob_goal =
     \<lparr>g_id = ''g2'', g_user_id = ''bob'', g_title = ''Run a marathon'', g_description = None,
      g_goal_type = Monthly, g_target_date = None, g_completed = False, g_created_at = 20,
      g_updated_at = 20\<rparr>"

definition example_milestone :: "uuid \<Rightarrow> uuid \<Rightarrow> uuid option \<Rightarrow> timestamptz \<Rightarrow> milestone" where
  "example_milestone i user_id goal_id created =
     \<lparr>m_id = i, m_user_id = user_id, m_goal_id = goal_id, m_title = ''Module 1'',
      m_description = None, m_completed = False, m_target_date = None, m_created_at = created,
      m_updated_at = created\<rparr>"

definition example_store :: store where
  "example_store =
     \<lparr>auth_users =
        [\<lparr>u_id = ''alice'', u_raw_user_meta_data = None\<rparr>,
         \<lparr>u_id = ''bob'', u_raw_user_meta_data = None\<rparr>],
      profiles =
        [\<lparr>p_id = ''alice'', p_full_name = Some [], p_created_at = 1, p_updated_at = 1\<rparr>,
         \<lparr>p_id = ''bob'', p_full_name = Some [], p_created_at = 2, p_updated_at = 2\<rparr>],
      tasks = [alice_task, bob_task],
      time_blocks = [],
      goals = [alice_goal, bob_goal],
      milestones =
        [example_milestone ''m1'' ''alice'' (Some ''g1'') 30,
         example_milestone ''m2'' ''alice'' None 40,
         example_milestone ''m3'' ''bob'' (Some ''g2'') 50]\<rparr>"

definition late_task :: task where
  "late_task = alice_task\<lparr>t_id := ''t3'', t_created_at := 300\<rparr>"

definition example_form :: form_data where
  "example_form = [''task-title'' \<mapsto> ''Water the plants'', ''alarm-time'' \<mapsto> []]"

definition new_task :: task where
  "new_task =
     \<lparr>t_id = ''t9'', t_user_id = ''alice'', t_title = ''Water the plants'', t_completed = False,
      t_task_date = 20148, t_alarm_time = None, t_created_at = 500, t_updated_at = 500\<rparr>"

definition example_today_view :: today_view where
  "example_today_view = \<lparr>tv_tasks = [alice_task, late_task], tv_timeBlocks = []\<rparr>"

definition carol :: auth_user where
  "carol = \<lparr>u_id = ''carol'',
             u_raw_user_meta_data = Some [''full_name'' \<mapsto> Json_string ''Carol Q'']\<rparr>"

definition carol_profile :: profile where
  "carol_profile =
     \<lparr>p_id = ''carol'', p_full_name = Some ''Carol Q'', p_created_at = 900, p_updated_at = 900\<rparr>"

definition milestone_form :: form_data where
  "milestone_form =
     [''milestone-title'' \<mapsto> ''Complete course module 1'', ''milestone-description'' \<mapsto> [],
      ''milestone-date'' \<mapsto> ''2025-03-02'']"

definition new_milestone :: milestone where
  "new_milestone =
     \<lparr>m_id = ''m9'', m_user_id = ''alice'', m_goal_id = None,
      m_title = ''Complete course module 1'', m_description = None, m_completed = False,
      m_target_date = Some 20149, m_created_at = 700, m_updated_at = 700\<rparr>"

section \<open>Properties of the scoped reads\<close>

lemma set_order_by: "set (order_by column ascending rows) = set rows"
  by (simp add: order_by_def)

lemma returned_failed: "returned (failed e) = []"
  by (simp add: returned_def failed_def)

lemma returned_succeeded: "returned (succeeded rows) = rows"
  by (simp add: returned_def succeeded_def)

lemma pg_select_owner:
  "pg_select policy (\<lambda>r. owner r = x \<and> rest r) rows =
   pg_select policy rest (filter (\<lambda>r. owner r = x) rows)"
  by (auto simp: pg_select_def intro: filter_cong)

lemma pg_select_owner_only:
  "pg_select policy (\<lambda>r. owner r = x) rows =
   pg_select policy (\<lambda>r. True) (filter (\<lambda>r. owner r = x) rows)"
  by (auto simp: pg_select_def intro: filter_cong)

lemma select_tasks_owner:
  "r \<in> set (returned (select_tasks io uid s x today fail)) \<Longrightarrow>
   t_user_id r = x \<and> uid = Some (t_user_id r)"
  by (cases fail; cases "date_in io today")
     (simp_all add: select_tasks_def returned_failed returned_succeeded set_order_by
        pg_select_def auth_uid_is_def)

lemma select_time_blocks_owner:
  "r \<in> set (returned (select_time_blocks io uid s x today fail)) \<Longrightarrow>
   b_user_id r = x \<and> uid = Some (b_user_id r)"
  by (cases fail; cases "date_in io today")
     (simp_all add: select_time_blocks_def returned_failed returned_succeeded set_order_by
        pg_select_def auth_uid_is_def)

lemma select_goals_owner:
  "r \<in> set (returned (select_goals uid s x fail)) \<Longrightarrow>
   g_user_id r = x \<and> uid = Some (g_user_id r)"
  by (cases fail)
     (simp_all add: select_goals_def returned_failed returned_succeeded set_order_by
        pg_select_def auth_uid_is_def)

lemma select_milestones_owner:
  "r \<in> set (returned (select_milestones uid s x fail)) \<Longrightarrow>
   m_user_id r = x \<and> uid = Some (m_user_id r)"
  by (cases fail)
     (simp_all add: select_milestones_def returned_failed returned_succeeded set_order_by
        pg_select_def auth_uid_is_def)

lemma select_goal_titles_owner:
  assumes "p \<in> set (returned (select_goal_titles uid s x fail))"
  shows "\<exists>g \<in> set (goals s). p = (g_id g, g_title g) \<and> g_user_id g = x \<and> uid = Some (g_user_id g)"
proof (cases fail)
  case None
  with assms obtain g where "g \<in> set (goals s)" "auth_uid_is uid (g_user_id g)"
    "g_user_id g = x" "p = (g_id g, g_title g)"
    by (auto simp: select_goal_titles_def returned_succeeded pg_select_def)
  then show ?thesis by (auto simp: auth_uid_is_def)
next
  case (Some e)
  with assms show ?thesis by (simp add: select_goal_titles_def returned_failed)
qed

lemma select_tasks_agree:
  "filter (\<lambda>r. t_user_id r = x) (tasks s) = filter (\<lambda>r. t_user_id r = x) (tasks s') \<Longrightarrow>
   select_tasks io uid s x today fail = select_tasks io uid s' x today fail"
  by (simp add: select_tasks_def pg_select_owner split: option.split)

lemma select_time_blocks_agree:
  "filter (\<lambda>r. b_user_id r = x) (time_blocks s) = filter (\<lambda>r. b_user_id r = x) (time_blocks s') \<Longrightarrow>
   select_time_blocks io uid s x today fail = select_time_blocks io uid s' x today fail"
  by (simp add: select_time_blocks_def pg_select_owner split: option.split)

lemma select_goals_agree:
  "filter (\<lambda>r. g_user_id r = x) (goals s) = filter (\<lambda>r. g_user_id r = x) (goals s') \<Longrightarrow>
   select_goals uid s x fail = select_goals uid s' x fail"
  by (simp add: select_goals_def pg_select_owner_only split: option.split)

lemma select_milestones_agree:
  "filter (\<lambda>r. m_user_id r = x) (milestones s) = filter (\<lambda>r. m_user_id r = x) (milestones s') \<Longrightarrow>
   select_milestones uid s x fail = select_milestones uid s' x fail"
  by (simp add: select_milestones_def pg_select_owner_only split: option.split)

lemma select_goal_titles_agree:
  "filter (\<lambda>r. g_user_id r = x) (goals s) = filter (\<lambda>r. g_user_id r = x) (goals s') \<Longrightarrow>
   select_goal_titles uid s x fail = select_goal_titles uid s' x fail"
  by (simp add: select_goal_titles_def pg_select_owner_only split: option.split)


text \<open>
  C1. Every row a scoped read returns for the identity \<open>x\<close> is owned by \<open>x\<close>, in
  each of the four entity tables (and in the projection of the goals the milestones view
  reads): the owner of a returned row is the filter value of the read and is the identity
  the request was made under. The response is the same in any two stores that hold the
  same rows of \<open>x\<close>: the rows of other identities have no influence on it.
\<close>

theorem scoped_reads_isolated:
  "(\<forall>r \<in> set (returned (select_tasks io uid s x today fail)).
      t_user_id r = x \<and> uid = Some (t_user_id r)) \<and>
   (\<forall>r \<in> set (returned (select_time_blocks io uid s x today fail)).
      b_user_id r = x \<and> uid = Some (b_user_id r)) \<and>
   (\<forall>r \<in> set (returned (select_goals uid s x fail)).
      g_user_id r = x \<and> uid = Some (g_user_id r)) \<and>
   (\<forall>r \<in> set (returned (select_milestones uid s x fail)).
      m_user_id r = x \<and> uid = Some (m_user_id r)) \<and>
   (\<forall>p \<in> set (returned (select_goal_titles uid s x fail)).
      \<exists>g \<in> set (goals s). p = (g_id g, g_title g) \<and> g_user_id g = x \<and> uid = Some (g_user_id g)) \<and>
   (filter (\<lambda>r. t_user_id r = x) (tasks s) = filter (\<lambda>r. t_user_id r = x) (tasks s') \<longrightarrow>
      select_tasks io uid s x today fail = select_tasks io uid s' x today fail) \<and>
   (filter (\<lambda>r. b_user_id r = x) (time_blocks s) = filter (\<lambda>r. b_user_id r = x) (time_blocks s') \<longrightarrow>
      select_time_blocks io uid s x today fail = select_time_blocks io uid s' x today fail) \<and>
   (filter (\<lambda>r. g_user_id r = x) (goals s) = filter (\<lambda>r. g_user_id r = x) (goals s') \<longrightarrow>
      select_goals uid s x fail = select_goals uid s' x fail \<and>
      select_goal_titles uid s x fail = select_goal_titles uid s' x fail) \<and>
   (filter (\<lambda>r. m_user_id r = x) (milestones s) = filter (\<lambda>r. m_user_id r = x) (milestones s') \<longrightarrow>
      select_milestones uid s x fail = select_milestones uid s' x fail)"
proof -
  have rows_tasks: "\<forall>r \<in> set (returned (select_tasks io uid s x today fail)).
      t_user_id r = x \<and> uid = Some (t_user_id r)"
    by (rule ballI) (rule select_tasks_owner)
  have rows_blocks: "\<forall>r \<in> set (returned (select_time_blocks io uid s x today fail)).
      b_user_id r = x \<and> uid = Some (b_user_id r)"
    by (rule ballI) (rule select_time_blocks_owner)
  have rows_goals: "\<forall>r \<in> set (returned (select_goals uid s x fail)).
      g_user_id r = x \<and> uid = Some (g_user_id r)"
    by (rule ballI) (rule select_goals_owner)
  have rows_milestones: "\<forall>r \<in> set (returned (select_milestones uid s x fail)).
      m_user_id r = x \<and> uid = Some (m_user_id r)"
    by (rule ballI) (rule select_milestones_owner)
  have rows_titles: "\<forall>p \<in> set (returned (select_goal_titles uid s x fail)).
      \<exists>g \<in> set (goals s). p = (g_id g, g_title g) \<and> g_user_id g = x \<and> uid = Some (g_user_id g)"
    by (rule ballI) (rule select_goal_titles_owner)
  have same_tasks:
    "filter (\<lambda>r. t_user_id r = x) (tasks s) = filter (\<lambda>r. t_user_id r = x) (tasks s') \<longrightarrow>
      select_tasks io uid s x today fail = select_tasks io uid s' x today fail"
    by (rule impI) (rule select_tasks_agree)
  have same_blocks:
    "filter (\<lambda>r. b_user_id r = x) (time_blocks s) = filter (\<lambda>r. b_user_id r = x) (time_blocks s') \<longrightarrow>
      select_time_blocks io uid s x today fail = select_time_blocks io uid s' x today fail"
    by (rule impI) (rule select_time_blocks_agree)
  have same_goals:
    "filter (\<lambda>r. g_user_id r = x) (goals s) = filter (\<lambda>r. g_user_id r = x) (goals s') \<longrightarrow>
      select_goals uid s x fail = select_goals uid s' x fail \<and>
      select_goal_titles uid s x fail = select_goal_titles uid s' x fail"
    by (intro impI conjI) (rule select_goals_agree, assumption, rule select_goal_titles_agree)
  have same_milestones:
    "filter (\<lambda>r. m_user_id r = x) (milestones s) = filter (\<lambda>r. m_user_id r = x) (milestones s') \<longrightarrow>
      select_milestones uid s x fail = select_milestones uid s' x fail"
    by (rule impI) (rule select_milestones_agree)
  show ?thesis
    by (intro conjI rows_tasks rows_blocks rows_goals rows_milestones rows_titles same_tasks
        same_blocks same_goals same_milestones)
qed

lemma example_tasks_read:
  "select_tasks example_input (Some ''alice'') example_store ''alice'' ''2025-03-01'' None =
   succeeded [alice_task]"
  by (simp add: select_tasks_def example_input_def example_store_def alice_task_def bob_task_def
      pg_select_def order_by_def auth_uid_is_def)

lemma example_goals_read:
  "select_goals (Some ''alice'') example_store ''alice'' None = succeeded [alice_goal]"
  by (simp add: select_goals_def example_store_def alice_goal_def bob_goal_def
      pg_select_def order_by_def auth_uid_is_def)

theorem scoped_reads_isolated_witness:
  "returned (select_tasks example_input (Some ''alice'') example_store ''alice'' ''2025-03-01'' None)
     = [alice_task] \<and>
   t_user_id alice_task = ''alice'' \<and>
   returned (select_goals (Some ''alice'') example_store ''alice'' None) = [alice_goal] \<and>
   g_user_id alice_goal = ''alice'' \<and>
   filter (\<lambda>r. t_user_id r = ''alice'') (tasks example_store) =
     filter (\<lambda>r. t_user_id r = ''alice'') (tasks (example_store\<lparr>tasks := [alice_task]\<rparr>)) \<and>
   select_tasks example_input (Some ''alice'') example_store ''alice'' ''2025-03-01'' None =
     select_tasks example_input (Some ''alice'') (example_store\<lparr>tasks := [alice_task]\<rparr>)
       ''alice'' ''2025-03-01'' None"
proof -
  have same: "filter (\<lambda>r. t_user_id r = ''alice'') (tasks example_store) =
     filter (\<lambda>r. t_user_id r = ''alice'') (tasks (example_store\<lparr>tasks := [alice_task]\<rparr>))"
    by (simp add: example_store_def alice_task_def bob_task_def)
  note inst = scoped_reads_isolated [of example_input "Some ''alice''" example_store "''alice''"
      "''2025-03-01''" None "example_store\<lparr>tasks := [alice_task]\<rparr>"]
  have tasks_read:
    "returned (select_tasks example_input (Some ''alice'') example_store ''alice'' ''2025-03-01'' None)
       = [alice_task]"
    by (simp add: example_tasks_read returned_succeeded)
  have goals_read:
    "returned (select_goals (Some ''alice'') example_store ''alice'' None) = [alice_goal]"
    by (simp add: example_goals_read returned_succeeded)
  from inst have "\<forall>r \<in> set (returned (select_tasks example_input (Some ''alice'')
      example_store ''alice'' ''2025-03-01'' None)). t_user_id r = ''alice''"
    by blast
  then have task_owner: "t_user_id alice_task = ''alice''"
    by (simp add: tasks_read)
  from inst have "\<forall>r \<in> set (returned (select_goals (Some ''alice'') example_store ''alice'' None)).
      g_user_id r = ''alice''"
    by blast
  then have goal_owner: "g_user_id alice_goal = ''alice''"
    by (simp add: goals_read)
  from inst same have unchanged:
    "select_tasks example_input (Some ''alice'') example_store ''alice'' ''2025-03-01'' None =
     select_tasks example_input (Some ''alice'') (example_store\<lparr>tasks := [alice_task]\<rparr>)
       ''alice'' ''2025-03-01'' None"
    by blast
  show ?thesis
    by (intro conjI tasks_read task_owner goals_read goal_owner same unchanged)
qed

section \<open>Properties of the loads\<close>

lemma sorted_order_by_ascending:
  "sorted_wrt (\<lambda>a b. column a \<le> column b) (order_by column True rows)"
  using sorted_sort_key [of column rows] by (simp add: order_by_def sorted_map)

lemma sorted_order_by_descending:
  "sorted_wrt (\<lambda>a b. column b \<le> column a) (order_by column False rows)"
  using sorted_sort_key [of column rows] by (simp add: order_by_def sorted_wrt_rev sorted_map)

lemma fetchTasks_sorted:
  assumes "error (select_tasks io uid s x today fail) = None"
  shows "sorted_wrt (\<lambda>a b. t_created_at a \<le> t_created_at b)
           (tv_tasks (fst (fetchTasks io uid s x today fail v)))"
proof -
  from assms obtain d where "fail = None" "date_in io today = Some d"
    by (cases fail; cases "date_in io today") (simp_all add: select_tasks_def failed_def)
  then show ?thesis
    by (simp add: fetchTasks_def Let_def select_tasks_def succeeded_def
        sorted_order_by_ascending)
qed

lemma fetchTimeBlocks_sorted:
  assumes "error (select_time_blocks io uid s x today fail) = None"
  shows "sorted_wrt (\<lambda>a b. b_start_time a \<le> b_start_time b)
           (tv_timeBlocks (fst (fetchTimeBlocks io uid s x today fail v)))"
proof -
  from assms obtain d where "fail = None" "date_in io today = Some d"
    by (cases fail; cases "date_in io today") (simp_all add: select_time_blocks_def failed_def)
  then show ?thesis
    by (simp add: fetchTimeBlocks_def Let_def select_time_blocks_def succeeded_def
        sorted_order_by_ascending)
qed

lemma fetchGoals_sorted:
  assumes "error (select_goals uid s x fail) = None"
  shows "sorted_wrt (\<lambda>a b. g_created_at b \<le> g_created_at a)
           (gv_goals (fst (fetchGoals uid s x fail v)))"
proof -
  from assms have "fail = None"
    by (cases fail) (simp_all add: select_goals_def failed_def)
  then show ?thesis
    by (simp add: fetchGoals_def Let_def select_goals_def succeeded_def
        sorted_order_by_descending)
qed

lemma fetchData_sorted:
  assumes "error (select_milestones uid s x fail) = None"
  shows "sorted_wrt (\<lambda>a b. m_created_at b \<le> m_created_at a)
           (mv_milestones (fst (fetchData uid s s' x fail fail' v)))"
proof -
  from assms have "fail = None"
    by (cases fail) (simp_all add: select_milestones_def failed_def)
  then show ?thesis
    by (simp add: fetchData_def Let_def select_milestones_def succeeded_def
        sorted_order_by_descending split: prod.split)
qed

text \<open>
  C5. When a load succeeds, the list it places in the view's state is sorted on the key
  of its entity: tasks ascending by \<open>created_at\<close>, time blocks ascending by
  \<open>start_time\<close>, goals and milestones descending by \<open>created_at\<close>.
\<close>

theorem loads_are_sorted:
  "(error (select_tasks io uid s x today fail) = None \<longrightarrow>
      sorted_wrt (\<lambda>a b. t_created_at a \<le> t_created_at b)
        (tv_tasks (fst (fetchTasks io uid s x today fail tv)))) \<and>
   (error (select_time_blocks io uid s x today fail) = None \<longrightarrow>
      sorted_wrt (\<lambda>a b. b_start_time a \<le> b_start_time b)
        (tv_timeBlocks (fst (fetchTimeBlocks io uid s x today fail tv)))) \<and>
   (error (select_goals uid s x fail) = None \<longrightarrow>
      sorted_wrt (\<lambda>a b. g_created_at b \<le> g_created_at a)
        (gv_goals (fst (fetchGoals uid s x fail gv)))) \<and>
   (error (select_milestones uid s x fail) = None \<longrightarrow>
      sorted_wrt (\<lambda>a b. m_created_at b \<le> m_created_at a)
        (mv_milestones (fst (fetchData uid s s' x fail fail' mv))))"
  by (intro conjI impI fetchTasks_sorted fetchTimeBlocks_sorted fetchGoals_sorted
      fetchData_sorted)


theorem loads_are_sorted_witness:
  "error (select_tasks example_input (Some ''alice'') (example_store\<lparr>tasks := [late_task, alice_task]\<rparr>)
            ''alice'' ''2025-03-01'' None) = None \<and>
   tv_tasks (fst (fetchTasks example_input (Some ''alice'')
      (example_store\<lparr>tasks := [late_task, alice_task]\<rparr>) ''alice'' ''2025-03-01'' None
      \<lparr>tv_tasks = [], tv_timeBlocks = []\<rparr>)) = [alice_task, late_task] \<and>
   sorted_wrt (\<lambda>a b. t_created_at a \<le> t_created_at b) [alice_task, late_task]"
proof -
  have read: "select_tasks example_input (Some ''alice'')
      (example_store\<lparr>tasks := [late_task, alice_task]\<rparr>) ''alice'' ''2025-03-01'' None =
      succeeded [alice_task, late_task]"
    by (simp add: select_tasks_def example_input_def example_store_def alice_task_def
        late_task_def pg_select_def order_by_def auth_uid_is_def)
  have ok: "error (select_tasks example_input (Some ''alice'')
      (example_store\<lparr>tasks := [late_task, alice_task]\<rparr>) ''alice'' ''2025-03-01'' None) = None"
    by (simp add: read succeeded_def)
  have loaded: "tv_tasks (fst (fetchTasks example_input (Some ''alice'')
      (example_store\<lparr>tasks := [late_task, alice_task]\<rparr>) ''alice'' ''2025-03-01'' None
      \<lparr>tv_tasks = [], tv_timeBlocks = []\<rparr>)) = [alice_task, late_task]"
    by (simp add: fetchTasks_def Let_def read succeeded_def)
  from ok loads_are_sorted [of example_input "Some ''alice''"
      "example_store\<lparr>tasks := [late_task, alice_task]\<rparr>" "''alice''" "''2025-03-01''" None
      "\<lparr>tv_tasks = [], tv_timeBlocks = []\<rparr>"]
  have "sorted_wrt (\<lambda>a b. t_created_at a \<le> t_created_at b)
      (tv_tasks (fst (fetchTasks example_input (Some ''alice'')
      (example_store\<lparr>tasks := [late_task, alice_task]\<rparr>) ''alice'' ''2025-03-01'' None
      \<lparr>tv_tasks = [], tv_timeBlocks = []\<rparr>)))"
    by blast
  then have "sorted_wrt (\<lambda>a b. t_created_at a \<le> t_created_at b) [alice_task, late_task]"
    by (simp only: loaded)
  with ok loaded show ?thesis by (intro conjI)
qed

section \<open>Creating a task and reading today's list\<close>

lemma insert_tasks_row:
  assumes "insert_tasks io uid now new_id payload s = Inr (r, s')"
  shows "uid = Some (t_user_id r)" and "tasks s' = tasks s @ [r]" and "t_id r = new_id"
    and "cast_column (date_in io) (column_text payload Task_task_date) = Inr (Some (t_task_date r))"
  using assms
  by (auto simp: insert_tasks_def auth_uid_is_def Let_def
      split: sum.splits option.splits if_splits prod.splits)

lemma select_tasks_member:
  assumes "date_in io today = Some d"
  shows "r \<in> set (returned (select_tasks io uid s x today None)) \<longleftrightarrow>
         r \<in> set (tasks s) \<and> uid = Some (t_user_id r) \<and> t_user_id r = x \<and> t_task_date r = d"
  using assms
  by (auto simp: select_tasks_def returned_succeeded set_order_by pg_select_def auth_uid_is_def)

text \<open>
  C6. A task that an insert of the identity \<open>x\<close> has created is returned by a later
  read of today's tasks made by \<open>x\<close>, in any store that still holds the task, exactly
  when its \<open>task_date\<close> is the day the read's \<open>today\<close> denotes: it is returned when
  the two are equal and is not returned when they differ.
\<close>

theorem todays_tasks_read:
  assumes "insert_tasks io (Some x) now new_id payload s = Inr (r, s')"
      and "date_in io today = Some d"
  shows "r \<in> set (tasks s') \<and>
         (\<forall>s''. r \<in> set (tasks s'') \<longrightarrow>
            (r \<in> set (returned (select_tasks io (Some x) s'' x today None)) \<longleftrightarrow>
             t_task_date r = d))"
proof -
  from assms(1) have owner: "Some x = Some (t_user_id r)" and stored: "tasks s' = tasks s @ [r]"
    by (rule insert_tasks_row)+
  from stored have "r \<in> set (tasks s')" by simp
  moreover have "r \<in> set (returned (select_tasks io (Some x) s'' x today None)) \<longleftrightarrow>
      t_task_date r = d" if "r \<in> set (tasks s'')" for s''
    using that owner by (auto simp: select_tasks_member [OF assms(2)])
  ultimately show ?thesis by blast
qed

lemma example_insert:
  "insert_tasks example_input (Some ''alice'') 500 ''t9''
     (task_payload ''2025-03-01'' ''alice'' example_form) example_store =
   Inr (new_task, example_store\<lparr>tasks := tasks example_store @ [new_task]\<rparr>)"
  by (simp add: insert_tasks_def task_payload_def example_form_def example_input_def
      example_store_def alice_task_def bob_task_def new_task_def column_text_def cast_column_def
      as_string_def or_null_def auth_uid_is_def Let_def)

theorem todays_tasks_read_witness:
  "insert_tasks example_input (Some ''alice'') 500 ''t9''
     (task_payload ''2025-03-01'' ''alice'' example_form) example_store =
     Inr (new_task, example_store\<lparr>tasks := tasks example_store @ [new_task]\<rparr>) \<and>
   date_in example_input ''2025-03-01'' = Some (t_task_date new_task) \<and>
   new_task \<in> set (returned (select_tasks example_input (Some ''alice'')
      (example_store\<lparr>tasks := tasks example_store @ [new_task]\<rparr>) ''alice'' ''2025-03-01'' None)) \<and>
   date_in example_input ''2025-03-02'' = Some 20149 \<and>
   new_task \<notin> set (returned (select_tasks example_input (Some ''alice'')
      (example_store\<lparr>tasks := tasks example_store @ [new_task]\<rparr>) ''alice'' ''2025-03-02'' None))"
proof -
  have d1: "date_in example_input ''2025-03-01'' = Some (t_task_date new_task)"
    by (simp add: example_input_def new_task_def)
  have d2: "date_in example_input ''2025-03-02'' = Some 20149"
    by (simp add: example_input_def)
  have other: "t_task_date new_task \<noteq> 20149"
    by (simp add: new_task_def)
  from todays_tasks_read [OF example_insert d1]
  have shown: "new_task \<in> set (returned (select_tasks example_input (Some ''alice'')
      (example_store\<lparr>tasks := tasks example_store @ [new_task]\<rparr>) ''alice'' ''2025-03-01'' None))"
    by blast
  from todays_tasks_read [OF example_insert d2] other
  have hidden: "new_task \<notin> set (returned (select_tasks example_input (Some ''alice'')
      (example_store\<lparr>tasks := tasks example_store @ [new_task]\<rparr>) ''alice'' ''2025-03-02'' None))"
    by blast
  show ?thesis by (intro conjI example_insert d1 shown d2 hidden)
qed

section \<open>Properties of the toggles\<close>

lemma toggleTask_failed_nth:
  assumes "i < length (tv_tasks tv)"
  shows "tv_tasks (fst (onCheckedChange_task (tv_tasks tv ! i) (Some e) tv)) ! i = tv_tasks tv ! i"
  using assms
  by (simp add: onCheckedChange_task_def toggleTask_def toggleTask_start_def
      toggleTask_settle_def Let_def)

lemma toggleTask_failed_view:
  assumes "r \<in> set (tv_tasks tv)" and "distinct (map t_id (tv_tasks tv))"
  shows "fst (onCheckedChange_task r (Some e) tv) = tv"
proof -
  have same: "u = r" if "u \<in> set (tv_tasks tv)" and "t_id u = t_id r" for u
    using inj_onD [OF _ that(2) that(1) assms(1)] assms(2) by (simp add: distinct_map)
  have restored:
    "map (\<lambda>u. if t_id u = t_id r then u\<lparr>t_completed := t_completed r\<rparr> else u)
       (map (\<lambda>u. if t_id u = t_id r then u\<lparr>t_completed := \<not> t_completed r\<rparr> else u)
          (tv_tasks tv)) = tv_tasks tv"
  proof (rule nth_equalityI)
    fix i assume "i < length (map (\<lambda>u. if t_id u = t_id r then u\<lparr>t_completed := t_completed r\<rparr> else u)
       (map (\<lambda>u. if t_id u = t_id r then u\<lparr>t_completed := \<not> t_completed r\<rparr> else u)
          (tv_tasks tv)))"
    then have i: "i < length (tv_tasks tv)" by simp
    then have "tv_tasks tv ! i \<in> set (tv_tasks tv)" by simp
    then show "map (\<lambda>u. if t_id u = t_id r then u\<lparr>t_completed := t_completed r\<rparr> else u)
       (map (\<lambda>u. if t_id u = t_id r then u\<lparr>t_completed := \<not> t_completed r\<rparr> else u)
          (tv_tasks tv)) ! i = tv_tasks tv ! i"
      using i same [of "tv_tasks tv ! i"] by (cases "t_id (tv_tasks tv ! i) = t_id r") simp_all
  qed simp
  show ?thesis
    by (simp add: onCheckedChange_task_def toggleTask_def toggleTask_start_def
        toggleTask_settle_def Let_def restored del: map_map)
qed

lemma toggleTask_settle_failed:
  assumes "r \<in> set (tv_tasks (fst (toggleTask_settle taskId currentStatus (Some e) mid)))"
      and "t_id r = taskId"
  shows "t_completed r = currentStatus"
proof -
  from assms(1) obtain u where "u \<in> set (tv_tasks mid)"
    and r: "r = (if t_id u = taskId then u\<lparr>t_completed := currentStatus\<rparr> else u)"
    by (auto simp: toggleTask_settle_def)
  from r assms(2) show ?thesis by (cases "t_id u = taskId") simp_all
qed

lemma toggleTask_no_select:
  "filter is_select (snd (toggleTask taskId currentStatus err tv)) = []"
  by (simp add: toggleTask_def toggleTask_start_def toggleTask_settle_def Let_def)

lemma toggleTask_twice_nth:
  assumes "i < length (tv_tasks tv)"
  shows "t_completed (tv_tasks (fst (onCheckedChange_task (tv_tasks tv ! i) None tv)) ! i) =
           (\<not> t_completed (tv_tasks tv ! i))"
    and "tv_tasks (fst (onCheckedChange_task
            (tv_tasks (fst (onCheckedChange_task (tv_tasks tv ! i) None tv)) ! i) None
            (fst (onCheckedChange_task (tv_tasks tv ! i) None tv)))) ! i = tv_tasks tv ! i"
  using assms
  by (simp_all add: onCheckedChange_task_def toggleTask_def toggleTask_start_def
      toggleTask_settle_def Let_def)

lemma toggleGoal_failed_nth:
  assumes "i < length (gv_goals gv)"
  shows "gv_goals (fst (onCheckedChange_goal (gv_goals gv ! i) (Some e) gv)) ! i = gv_goals gv ! i"
  using assms
  by (simp add: onCheckedChange_goal_def toggleGoal_def toggleGoal_start_def
      toggleGoal_settle_def Let_def)

lemma toggleGoal_failed_view:
  assumes "r \<in> set (gv_goals gv)" and "distinct (map g_id (gv_goals gv))"
  shows "fst (onCheckedChange_goal r (Some e) gv) = gv"
proof -
  have same: "u = r" if "u \<in> set (gv_goals gv)" and "g_id u = g_id r" for u
    using inj_onD [OF _ that(2) that(1) assms(1)] assms(2) by (simp add: distinct_map)
  have restored:
    "map (\<lambda>u. if g_id u = g_id r then u\<lparr>g_completed := g_completed r\<rparr> else u)
       (map (\<lambda>u. if g_id u = g_id r then u\<lparr>g_completed := \<not> g_completed r\<rparr> else u)
          (gv_goals gv)) = gv_goals gv"
  proof (rule nth_equalityI)
    fix i assume "i < length (map (\<lambda>u. if g_id u = g_id r then u\<lparr>g_completed := g_completed r\<rparr> else u)
       (map (\<lambda>u. if g_id u = g_id r then u\<lparr>g_completed := \<not> g_completed r\<rparr> else u)
          (gv_goals gv)))"
    then have i: "i < length (gv_goals gv)" by simp
    then have "gv_goals gv ! i \<in> set (gv_goals gv)" by simp
    then show "map (\<lambda>u. if g_id u = g_id r then u\<lparr>g_completed := g_completed r\<rparr> else u)
       (map (\<lambda>u. if g_id u = g_id r then u\<lparr>g_completed := \<not> g_completed r\<rparr> else u)
          (gv_goals gv)) ! i = gv_goals gv ! i"
      using i same [of "gv_goals gv ! i"] by (cases "g_id (gv_goals gv ! i) = g_id r") simp_all
  qed simp
  show ?thesis
    by (simp add: onCheckedChange_goal_def toggleGoal_def toggleGoal_start_def
        toggleGoal_settle_def Let_def restored del: map_map)
qed

lemma toggleGoal_settle_failed:
  assumes "r \<in> set (gv_goals (fst (toggleGoal_settle goalId currentStatus (Some e) mid)))"
      and "g_id r = goalId"
  shows "g_completed r = currentStatus"
proof -
  from assms(1) obtain u where "u \<in> set (gv_goals mid)"
    and r: "r = (if g_id u = goalId then u\<lparr>g_completed := currentStatus\<rparr> else u)"
    by (auto simp: toggleGoal_settle_def)
  from r assms(2) show ?thesis by (cases "g_id u = goalId") simp_all
qed

lemma toggleGoal_no_select:
  "filter is_select (snd (toggleGoal goalId currentStatus err gv)) = []"
  by (simp add: toggleGoal_def toggleGoal_start_def toggleGoal_settle_def Let_def)

lemma toggleGoal_twice_nth:
  assumes "i < length (gv_goals gv)"
  shows "g_completed (gv_goals (fst (onCheckedChange_goal (gv_goals gv ! i) None gv)) ! i) =
           (\<not> g_completed (gv_goals gv ! i))"
    and "gv_goals (fst (onCheckedChange_goal
            (gv_goals (fst (onCheckedChange_goal (gv_goals gv ! i) None gv)) ! i) None
            (fst (onCheckedChange_goal (gv_goals gv ! i) None gv)))) ! i = gv_goals gv ! i"
  using assms
  by (simp_all add: onCheckedChange_goal_def toggleGoal_def toggleGoal_start_def
      toggleGoal_settle_def Let_def)

lemma toggleMilestone_failed_nth:
  assumes "i < length (mv_milestones mv)"
  shows "mv_milestones (fst (onCheckedChange_milestone (mv_milestones mv ! i) (Some e) mv)) ! i = mv_milestones mv ! i"
  using assms
  by (simp add: onCheckedChange_milestone_def toggleMilestone_def toggleMilestone_start_def
      toggleMilestone_settle_def Let_def)

lemma toggleMilestone_failed_view:
  assumes "r \<in> set (mv_milestones mv)" and "distinct (map m_id (mv_milestones mv))"
  shows "fst (onCheckedChange_milestone r (Some e) mv) = mv"
proof -
  have same: "u = r" if "u \<in> set (mv_milestones mv)" and "m_id u = m_id r" for u
    using inj_onD [OF _ that(2) that(1) assms(1)] assms(2) by (simp add: distinct_map)
  have restored:
    "map (\<lambda>u. if m_id u = m_id r then u\<lparr>m_completed := m_completed r\<rparr> else u)
       (map (\<lambda>u. if m_id u = m_id r then u\<lparr>m_completed := \<not> m_completed r\<rparr> else u)
          (mv_milestones mv)) = mv_milestones mv"
  proof (rule nth_equalityI)
    fix i assume "i < length (map (\<lambda>u. if m_id u = m_id r then u\<lparr>m_completed := m_completed r\<rparr> else u)
       (map (\<lambda>u. if m_id u = m_id r then u\<lparr>m_completed := \<not> m_completed r\<rparr> else u)
          (mv_milestones mv)))"
    then have i: "i < length (mv_milestones mv)" by simp
    then have "mv_milestones mv ! i \<in> set (mv_milestones mv)" by simp
    then show "map (\<lambda>u. if m_id u = m_id r then u\<lparr>m_completed := m_completed r\<rparr> else u)
       (map (\<lambda>u. if m_id u = m_id r then u\<lparr>m_completed := \<not> m_completed r\<rparr> else u)
          (mv_milestones mv)) ! i = mv_milestones mv ! i"
      using i same [of "mv_milestones mv ! i"] by (cases "m_id (mv_milestones mv ! i) = m_id r") simp_all
  qed simp
  show ?thesis
    by (simp add: onCheckedChange_milestone_def toggleMilestone_def toggleMilestone_start_def
        toggleMilestone_settle_def Let_def restored del: map_map)
qed

lemma toggleMilestone_settle_failed:
  assumes "r \<in> set (mv_milestones (fst (toggleMilestone_settle milestoneId currentStatus (Some e) mid)))"
      and "m_id r = milestoneId"
  shows "m_completed r = currentStatus"
proof -
  from assms(1) obtain u where "u \<in> set (mv_milestones mid)"
    and r: "r = (if m_id u = milestoneId then u\<lparr>m_completed := currentStatus\<rparr> else u)"
    by (auto simp: toggleMilestone_settle_def)
  from r assms(2) show ?thesis by (cases "m_id u = milestoneId") simp_all
qed

lemma toggleMilestone_no_select:
  "filter is_select (snd (toggleMilestone milestoneId currentStatus err mv)) = []"
  by (simp add: toggleMilestone_def toggleMilestone_start_def toggleMilestone_settle_def Let_def)

lemma toggleMilestone_twice_nth:
  assumes "i < length (mv_milestones mv)"
  shows "m_completed (mv_milestones (fst (onCheckedChange_milestone (mv_milestones mv ! i) None mv)) ! i) =
           (\<not> m_completed (mv_milestones mv ! i))"
    and "mv_milestones (fst (onCheckedChange_milestone
            (mv_milestones (fst (onCheckedChange_milestone (mv_milestones mv ! i) None mv)) ! i) None
            (fst (onCheckedChange_milestone (mv_milestones mv ! i) None mv)))) ! i = mv_milestones mv ! i"
  using assms
  by (simp_all add: onCheckedChange_milestone_def toggleMilestone_def toggleMilestone_start_def
      toggleMilestone_settle_def Let_def)

text \<open>
  C2. When the update of a toggle fails, the record is as it was before the toggle. With
  the round trip awaited, the record at the toggled position is the record that was
  there, and the whole view is the view as it was when the ids of the list are distinct
  (they are a primary key). Whatever ran in the list between the two parts of the call,
  after the failure handler every record with the toggled id carries the flag the call
  was started with. The call issues no read: its only request is the update.
\<close>

theorem failed_toggle_reverts:
  "(\<forall>i < length (tv_tasks tv).
      tv_tasks (fst (onCheckedChange_task (tv_tasks tv ! i) (Some e) tv)) ! i = tv_tasks tv ! i) \<and>
   (\<forall>r \<in> set (tv_tasks tv). distinct (map t_id (tv_tasks tv)) \<longrightarrow>
      fst (onCheckedChange_task r (Some e) tv) = tv) \<and>
   (\<forall>r \<in> set (tv_tasks (fst (toggleTask_settle taskId currentStatus (Some e) tv'))).
      t_id r = taskId \<longrightarrow> t_completed r = currentStatus) \<and>
   filter is_select (snd (toggleTask taskId currentStatus err tv)) = [] \<and>
   (\<forall>i < length (gv_goals gv).
      gv_goals (fst (onCheckedChange_goal (gv_goals gv ! i) (Some e) gv)) ! i = gv_goals gv ! i) \<and>
   (\<forall>r \<in> set (gv_goals gv). distinct (map g_id (gv_goals gv)) \<longrightarrow>
      fst (onCheckedChange_goal r (Some e) gv) = gv) \<and>
   (\<forall>r \<in> set (gv_goals (fst (toggleGoal_settle goalId currentStatus (Some e) gv'))).
      g_id r = goalId \<longrightarrow> g_completed r = currentStatus) \<and>
   filter is_select (snd (toggleGoal goalId currentStatus err gv)) = [] \<and>
   (\<forall>i < length (mv_milestones mv).
      mv_milestones (fst (onCheckedChange_milestone (mv_milestones mv ! i) (Some e) mv)) ! i = mv_milestones mv ! i) \<and>
   (\<forall>r \<in> set (mv_milestones mv). distinct (map m_id (mv_milestones mv)) \<longrightarrow>
      fst (onCheckedChange_milestone r (Some e) mv) = mv) \<and>
   (\<forall>r \<in> set (mv_milestones (fst (toggleMilestone_settle milestoneId currentStatus (Some e) mv'))).
      m_id r = milestoneId \<longrightarrow> m_completed r = currentStatus) \<and>
   filter is_select (snd (toggleMilestone milestoneId currentStatus err mv)) = []"
proof -
  have task_nth: "(\<forall>i < length (tv_tasks tv).
      tv_tasks (fst (onCheckedChange_task (tv_tasks tv ! i) (Some e) tv)) ! i = tv_tasks tv ! i)"
    by (intro allI impI toggleTask_failed_nth)
  have task_view: "(\<forall>r \<in> set (tv_tasks tv). distinct (map t_id (tv_tasks tv)) \<longrightarrow>
      fst (onCheckedChange_task r (Some e) tv) = tv)"
    by (intro ballI impI toggleTask_failed_view)
  have task_settle: "(\<forall>r \<in> set (tv_tasks (fst (toggleTask_settle taskId currentStatus (Some e) tv'))).
      t_id r = taskId \<longrightarrow> t_completed r = currentStatus)"
    by (intro ballI impI) (rule toggleTask_settle_failed)
  have task_quiet: "filter is_select (snd (toggleTask taskId currentStatus err tv)) = []"
    by (rule toggleTask_no_select)
  have goal_nth: "(\<forall>i < length (gv_goals gv).
      gv_goals (fst (onCheckedChange_goal (gv_goals gv ! i) (Some e) gv)) ! i = gv_goals gv ! i)"
    by (intro allI impI toggleGoal_failed_nth)
  have goal_view: "(\<forall>r \<in> set (gv_goals gv). distinct (map g_id (gv_goals gv)) \<longrightarrow>
      fst (onCheckedChange_goal r (Some e) gv) = gv)"
    by (intro ballI impI toggleGoal_failed_view)
  have goal_settle: "(\<forall>r \<in> set (gv_goals (fst (toggleGoal_settle goalId currentStatus (Some e) gv'))).
      g_id r = goalId \<longrightarrow> g_completed r = currentStatus)"
    by (intro ballI impI) (rule toggleGoal_settle_failed)
  have goal_quiet: "filter is_select (snd (toggleGoal goalId currentStatus err gv)) = []"
    by (rule toggleGoal_no_select)
  have milestone_nth: "(\<forall>i < length (mv_milestones mv).
      mv_milestones (fst (onCheckedChange_milestone (mv_milestones mv ! i) (Some e) mv)) ! i = mv_milestones mv ! i)"
    by (intro allI impI toggleMilestone_failed_nth)
  have milestone_view: "(\<forall>r \<in> set (mv_milestones mv). distinct (map m_id (mv_milestones mv)) \<longrightarrow>
      fst (onCheckedChange_milestone r (Some e) mv) = mv)"
    by (intro ballI impI toggleMilestone_failed_view)
  have milestone_settle: "(\<forall>r \<in> set (mv_milestones (fst (toggleMilestone_settle milestoneId currentStatus (Some e) mv'))).
      m_id r = milestoneId \<longrightarrow> m_completed r = currentStatus)"
    by (intro ballI impI) (rule toggleMilestone_settle_failed)
  have milestone_quiet: "filter is_select (snd (toggleMilestone milestoneId currentStatus err mv)) = []"
    by (rule toggleMilestone_no_select)
  show ?thesis
    by (intro conjI task_nth task_view task_settle task_quiet goal_nth goal_view goal_settle goal_quiet milestone_nth milestone_view milestone_settle milestone_quiet)
qed

theorem failed_toggle_reverts_witness:
  "alice_task \<in> set (tv_tasks example_today_view) \<and>
   distinct (map t_id (tv_tasks example_today_view)) \<and>
   fst (onCheckedChange_task alice_task (Some Transport_failure) example_today_view) =
     example_today_view \<and>
   snd (onCheckedChange_task alice_task (Some Transport_failure) example_today_view) =
     [Sound_complete, Request_update ''tasks'' ''t1'' True, Toast_error ''Failed to update task'']"
proof -
  have present: "alice_task \<in> set (tv_tasks example_today_view)"
    by (simp add: example_today_view_def)
  have ids: "distinct (map t_id (tv_tasks example_today_view))"
    by (simp add: example_today_view_def alice_task_def late_task_def)
  from failed_toggle_reverts [of example_today_view Transport_failure] present ids
  have reverted:
    "fst (onCheckedChange_task alice_task (Some Transport_failure) example_today_view) =
       example_today_view"
    by blast
  have effects:
    "snd (onCheckedChange_task alice_task (Some Transport_failure) example_today_view) =
       [Sound_complete, Request_update ''tasks'' ''t1'' True, Toast_error ''Failed to update task'']"
    by (simp add: onCheckedChange_task_def toggleTask_def toggleTask_start_def
        toggleTask_settle_def Let_def alice_task_def)
  show ?thesis by (intro conjI present ids reverted effects)
qed

text \<open>
  C3. Toggling the record at a position twice, each round trip awaited and both updates
  succeeding, gives back the record that was there: the first toggle negates its flag,
  the second restores it.
\<close>

theorem double_toggle_restores:
  "(\<forall>i < length (tv_tasks tv).
      t_completed (tv_tasks (fst (onCheckedChange_task (tv_tasks tv ! i) None tv)) ! i) =
        (\<not> t_completed (tv_tasks tv ! i)) \<and>
      tv_tasks (fst (onCheckedChange_task
         (tv_tasks (fst (onCheckedChange_task (tv_tasks tv ! i) None tv)) ! i) None
         (fst (onCheckedChange_task (tv_tasks tv ! i) None tv)))) ! i = tv_tasks tv ! i) \<and>
   (\<forall>i < length (gv_goals gv).
      g_completed (gv_goals (fst (onCheckedChange_goal (gv_goals gv ! i) None gv)) ! i) =
        (\<not> g_completed (gv_goals gv ! i)) \<and>
      gv_goals (fst (onCheckedChange_goal
         (gv_goals (fst (onCheckedChange_goal (gv_goals gv ! i) None gv)) ! i) None
         (fst (onCheckedChange_goal (gv_goals gv ! i) None gv)))) ! i = gv_goals gv ! i) \<and>
   (\<forall>i < length (mv_milestones mv).
      m_completed (mv_milestones (fst (onCheckedChange_milestone (mv_milestones mv ! i) None mv)) ! i) =
        (\<not> m_completed (mv_milestones mv ! i)) \<and>
      mv_milestones (fst (onCheckedChange_milestone
         (mv_milestones (fst (onCheckedChange_milestone (mv_milestones mv ! i) None mv)) ! i) None
         (fst (onCheckedChange_milestone (mv_milestones mv ! i) None mv)))) ! i = mv_milestones mv ! i)"
proof -
  have task_twice: "(\<forall>i < length (tv_tasks tv).
      t_completed (tv_tasks (fst (onCheckedChange_task (tv_tasks tv ! i) None tv)) ! i) =
        (\<not> t_completed (tv_tasks tv ! i)) \<and>
      tv_tasks (fst (onCheckedChange_task
         (tv_tasks (fst (onCheckedChange_task (tv_tasks tv ! i) None tv)) ! i) None
         (fst (onCheckedChange_task (tv_tasks tv ! i) None tv)))) ! i = tv_tasks tv ! i)"
    by (intro allI impI conjI toggleTask_twice_nth)
  have goal_twice: "(\<forall>i < length (gv_goals gv).
      g_completed (gv_goals (fst (onCheckedChange_goal (gv_goals gv ! i) None gv)) ! i) =
        (\<not> g_completed (gv_goals gv ! i)) \<and>
      gv_goals (fst (onCheckedChange_goal
         (gv_goals (fst (onCheckedChange_goal (gv_goals gv ! i) None gv)) ! i) None
         (fst (onCheckedChange_goal (gv_goals gv ! i) None gv)))) ! i = gv_goals gv ! i)"
    by (intro allI impI conjI toggleGoal_twice_nth)
  have milestone_twice: "(\<forall>i < length (mv_milestones mv).
      m_completed (mv_milestones (fst (onCheckedChange_milestone (mv_milestones mv ! i) None mv)) ! i) =
        (\<not> m_completed (mv_milestones mv ! i)) \<and>
      mv_milestones (fst (onCheckedChange_milestone
         (mv_milestones (fst (onCheckedChange_milestone (mv_milestones mv ! i) None mv)) ! i) None
         (fst (onCheckedChange_milestone (mv_milestones mv ! i) None mv)))) ! i = mv_milestones mv ! i)"
    by (intro allI impI conjI toggleMilestone_twice_nth)
  show ?thesis
    by (intro conjI task_twice goal_twice milestone_twice)
qed

theorem double_toggle_restores_witness:
  "(0::nat) < length (tv_tasks example_today_view) \<and>
   tv_tasks example_today_view ! 0 = alice_task \<and>
   tv_tasks (fst (onCheckedChange_task alice_task None example_today_view)) ! 0 =
     alice_task\<lparr>t_completed := True\<rparr> \<and>
   tv_tasks (fst (onCheckedChange_task (alice_task\<lparr>t_completed := True\<rparr>) None
      (fst (onCheckedChange_task alice_task None example_today_view)))) ! 0 = alice_task"
proof -
  have len: "(0::nat) < length (tv_tasks example_today_view)"
    by (simp add: example_today_view_def)
  have first: "tv_tasks example_today_view ! 0 = alice_task"
    by (simp add: example_today_view_def)
  have once: "tv_tasks (fst (onCheckedChange_task alice_task None example_today_view)) ! 0 =
     alice_task\<lparr>t_completed := True\<rparr>"
    by (simp add: onCheckedChange_task_def toggleTask_def toggleTask_start_def
        toggleTask_settle_def Let_def example_today_view_def alice_task_def)
  from double_toggle_restores [of example_today_view] len
  have "tv_tasks (fst (onCheckedChange_task
         (tv_tasks (fst (onCheckedChange_task (tv_tasks example_today_view ! 0) None
            example_today_view)) ! 0) None
         (fst (onCheckedChange_task (tv_tasks example_today_view ! 0) None example_today_view)))) ! 0
        = tv_tasks example_today_view ! 0"
    by blast
  then have twice: "tv_tasks (fst (onCheckedChange_task (alice_task\<lparr>t_completed := True\<rparr>) None
      (fst (onCheckedChange_task alice_task None example_today_view)))) ! 0 = alice_task"
    by (simp only: first once)
  show ?thesis by (intro conjI len first once twice)
qed

section \<open>Deleting a goal\<close>

lemma deleted_goal_ids:
  assumes "g \<in> set (goals s)"
  shows "k \<in> set (map g_id (pg_select (\<lambda>r. auth_uid_is (Some (g_user_id g)) (g_user_id r))
            (\<lambda>r. g_id r = g_id g) (goals s))) \<longleftrightarrow> k = g_id g"
proof
  assume "k \<in> set (map g_id (pg_select (\<lambda>r. auth_uid_is (Some (g_user_id g)) (g_user_id r))
            (\<lambda>r. g_id r = g_id g) (goals s)))"
  then obtain r where "r \<in> set (pg_select (\<lambda>r. auth_uid_is (Some (g_user_id g)) (g_user_id r))
            (\<lambda>r. g_id r = g_id g) (goals s))" and "k = g_id r"
    by (auto simp only: set_map)
  then show "k = g_id g" by (simp add: pg_select_def)
next
  assume k: "k = g_id g"
  have "g \<in> set (pg_select (\<lambda>r. auth_uid_is (Some (g_user_id g)) (g_user_id r))
            (\<lambda>r. g_id r = g_id g) (goals s))"
    using assms by (simp add: pg_select_def auth_uid_is_def)
  then have "g_id g \<in> g_id ` set (pg_select (\<lambda>r. auth_uid_is (Some (g_user_id g)) (g_user_id r))
            (\<lambda>r. g_id r = g_id g) (goals s))"
    by (rule imageI)
  with k show "k \<in> set (map g_id (pg_select (\<lambda>r. auth_uid_is (Some (g_user_id g)) (g_user_id r))
            (\<lambda>r. g_id r = g_id g) (goals s)))"
    by (simp only: set_map)
qed

text \<open>
  C4. When the owner of a goal deletes it, the milestones afterwards are the milestones
  before without those whose \<open>goal_id\<close> referenced the goal, in the same order and
  unchanged: a milestone with no goal reference and a milestone that references another
  goal stay, and the goal is gone.
\<close>

theorem goal_deletion_cascades:
  assumes "g \<in> set (goals s)"
  shows "milestones (delete_goals (Some (g_user_id g)) (g_id g) s) =
           filter (\<lambda>m. m_goal_id m \<noteq> Some (g_id g)) (milestones s) \<and>
         g \<notin> set (goals (delete_goals (Some (g_user_id g)) (g_id g) s))"
proof -
  have "filter
          (\<lambda>m. case m_goal_id m of
                 None \<Rightarrow> True
               | Some goal_id \<Rightarrow>
                   goal_id \<notin> set (map g_id
                     (pg_select (\<lambda>r. auth_uid_is (Some (g_user_id g)) (g_user_id r))
                        (\<lambda>r. g_id r = g_id g) (goals s))))
          (milestones s) =
        filter (\<lambda>m. m_goal_id m \<noteq> Some (g_id g)) (milestones s)"
  proof (rule filter_cong [OF refl])
    fix m
    show "(case m_goal_id m of
                 None \<Rightarrow> True
               | Some goal_id \<Rightarrow>
                   goal_id \<notin> set (map g_id
                     (pg_select (\<lambda>r. auth_uid_is (Some (g_user_id g)) (g_user_id r))
                        (\<lambda>r. g_id r = g_id g) (goals s)))) =
          (m_goal_id m \<noteq> Some (g_id g))"
      by (cases "m_goal_id m") (simp_all only: option.case deleted_goal_ids [OF assms], simp_all)
  qed
  moreover have "milestones (delete_goals (Some (g_user_id g)) (g_id g) s) =
        filter
          (\<lambda>m. case m_goal_id m of
                 None \<Rightarrow> True
               | Some goal_id \<Rightarrow>
                   goal_id \<notin> set (map g_id
                     (pg_select (\<lambda>r. auth_uid_is (Some (g_user_id g)) (g_user_id r))
                        (\<lambda>r. g_id r = g_id g) (goals s))))
          (milestones s)"
    by (simp add: delete_goals_def Let_def)
  ultimately have kept: "milestones (delete_goals (Some (g_user_id g)) (g_id g) s) =
           filter (\<lambda>m. m_goal_id m \<noteq> Some (g_id g)) (milestones s)"
    by (rule trans [rotated])
  have gone: "g \<notin> set (goals (delete_goals (Some (g_user_id g)) (g_id g) s))"
    using assms by (simp add: delete_goals_def Let_def pg_select_def auth_uid_is_def)
  from kept gone show ?thesis by (rule conjI)
qed

theorem goal_deletion_cascades_witness:
  "alice_goal \<in> set (goals example_store) \<and>
   milestones (delete_goals (Some ''alice'') ''g1'' example_store) =
     [example_milestone ''m2'' ''alice'' None 40,
      example_milestone ''m3'' ''bob'' (Some ''g2'') 50]"
proof -
  have present: "alice_goal \<in> set (goals example_store)"
    by (simp add: example_store_def)
  from goal_deletion_cascades [OF present]
  have "milestones (delete_goals (Some (g_user_id alice_goal)) (g_id alice_goal) example_store) =
          filter (\<lambda>m. m_goal_id m \<noteq> Some (g_id alice_goal)) (milestones example_store)"
    by (rule conjunct1)
  then have "milestones (delete_goals (Some ''alice'') ''g1'' example_store) =
     [example_milestone ''m2'' ''alice'' None 40,
      example_milestone ''m3'' ''bob'' (Some ''g2'') 50]"
    by (simp add: alice_goal_def example_store_def example_milestone_def)
  with present show ?thesis by (rule conjI)
qed

section \<open>Account creation creates the profile\<close>

lemma insert_auth_users_result:
  assumes "insert_auth_users now NEW s = Inr s'"
  shows "auth_users s' = auth_users s @ [NEW]"
    and "profiles s' = profiles s @
           [\<lparr>p_id = u_id NEW,
             p_full_name =
               Some (case json_field_text (u_raw_user_meta_data NEW) ''full_name'' of
                       None \<Rightarrow> []
                     | Some name \<Rightarrow> name),
             p_created_at = now, p_updated_at = now\<rparr>]"
    and "u_id NEW \<notin> set (map p_id (profiles s))"
proof -
  from assms have fresh: "u_id NEW \<notin> set (map u_id (auth_users s))"
    by (cases "u_id NEW \<in> set (map u_id (auth_users s))") (simp_all add: insert_auth_users_def)
  with assms have run: "handle_new_user now NEW (s\<lparr>auth_users := auth_users s @ [NEW]\<rparr>) = Inr s'"
    by (simp add: insert_auth_users_def)
  then show no_profile: "u_id NEW \<notin> set (map p_id (profiles s))"
    by (cases "u_id NEW \<in> set (map p_id (profiles s))") (simp_all add: handle_new_user_def)
  with run have s': "s' = s\<lparr>auth_users := auth_users s @ [NEW],
      profiles := profiles s @
           [\<lparr>p_id = u_id NEW,
             p_full_name =
               Some (coalesce (json_field_text (u_raw_user_meta_data NEW) ''full_name'') []),
             p_created_at = now, p_updated_at = now\<rparr>]\<rparr>"
    by (simp add: handle_new_user_def)
  show "auth_users s' = auth_users s @ [NEW]"
    by (simp add: s')
  show "profiles s' = profiles s @
           [\<lparr>p_id = u_id NEW,
             p_full_name =
               Some (case json_field_text (u_raw_user_meta_data NEW) ''full_name'' of
                       None \<Rightarrow> []
                     | Some name \<Rightarrow> name),
             p_created_at = now, p_updated_at = now\<rparr>]"
    by (simp add: s' coalesce_def)
qed

lemma insert_auth_users_succeeds:
  assumes "u_id NEW \<notin> set (map u_id (auth_users s))"
      and "\<forall>p \<in> set (profiles s). p_id p \<in> set (map u_id (auth_users s))"
  shows "\<exists>s'. insert_auth_users now NEW s = Inr s'"
proof -
  from assms have "u_id NEW \<notin> set (map p_id (profiles s))"
    by auto
  with assms(1) show ?thesis
    by (simp add: insert_auth_users_def handle_new_user_def)
qed

lemma one_profile:
  assumes "k \<notin> set (map p_id ps)" and "p_id p = k"
  shows "length (filter (\<lambda>q. p_id q = k) (ps @ [p])) = 1"
proof -
  from assms(1) have "filter (\<lambda>q. p_id q = k) ps = []"
    by (auto simp: filter_empty_conv)
  with assms(2) show ?thesis by simp
qed

text \<open>
  C8. Creating an identity creates exactly one profile keyed by it. When the insertion
  into \<open>auth.users\<close> succeeds, the profiles afterwards are the profiles before and one
  new row, whose id is the new identity and whose \<open>full_name\<close> is the \<open>full_name\<close>
  text of the metadata, or the empty string when the metadata supplies none; it is the
  only profile with that id. The insertion does succeed for an id that is new, in a store
  whose profiles all belong to an identity.
\<close>

theorem new_identity_gets_one_profile:
  "(insert_auth_users now NEW s = Inr s' \<longrightarrow>
      auth_users s' = auth_users s @ [NEW] \<and>
      profiles s' = profiles s @
        [\<lparr>p_id = u_id NEW,
          p_full_name =
            Some (case json_field_text (u_raw_user_meta_data NEW) ''full_name'' of
                    None \<Rightarrow> []
                  | Some name \<Rightarrow> name),
          p_created_at = now, p_updated_at = now\<rparr>] \<and>
      length (filter (\<lambda>p. p_id p = u_id NEW) (profiles s')) = 1) \<and>
   (u_id NEW \<notin> set (map u_id (auth_users s)) \<and>
    (\<forall>p \<in> set (profiles s). p_id p \<in> set (map u_id (auth_users s))) \<longrightarrow>
      (\<exists>s'. insert_auth_users now NEW s = Inr s'))"
proof (intro conjI impI)
  assume ok: "insert_auth_users now NEW s = Inr s'"
  show "auth_users s' = auth_users s @ [NEW]"
    by (rule insert_auth_users_result(1) [OF ok])
  show stored: "profiles s' = profiles s @
        [\<lparr>p_id = u_id NEW,
          p_full_name =
            Some (case json_field_text (u_raw_user_meta_data NEW) ''full_name'' of
                    None \<Rightarrow> []
                  | Some name \<Rightarrow> name),
          p_created_at = now, p_updated_at = now\<rparr>]"
    by (rule insert_auth_users_result(2) [OF ok])
  show "length (filter (\<lambda>p. p_id p = u_id NEW) (profiles s')) = 1"
    unfolding stored by (rule one_profile [OF insert_auth_users_result(3) [OF ok]]) simp
next
  assume "u_id NEW \<notin> set (map u_id (auth_users s)) \<and>
    (\<forall>p \<in> set (profiles s). p_id p \<in> set (map u_id (auth_users s)))"
  then show "\<exists>s'. insert_auth_users now NEW s = Inr s'"
    using insert_auth_users_succeeds by blast
qed


lemma example_signup:
  "insert_auth_users 900 carol example_store =
     Inr (example_store\<lparr>auth_users := auth_users example_store @ [carol],
                        profiles := profiles example_store @ [carol_profile]\<rparr>)"
  by (simp add: insert_auth_users_def handle_new_user_def carol_def carol_profile_def
      example_store_def json_field_text_def coalesce_def)

theorem new_identity_gets_one_profile_witness:
  "insert_auth_users 900 carol example_store =
     Inr (example_store\<lparr>auth_users := auth_users example_store @ [carol],
                        profiles := profiles example_store @ [carol_profile]\<rparr>) \<and>
   length (filter (\<lambda>p. p_id p = ''carol'')
     (profiles (example_store\<lparr>auth_users := auth_users example_store @ [carol],
                               profiles := profiles example_store @ [carol_profile]\<rparr>))) = 1 \<and>
   p_full_name carol_profile = Some ''Carol Q''"
proof -
  from new_identity_gets_one_profile [of 900 carol example_store
      "example_store\<lparr>auth_users := auth_users example_store @ [carol],
                      profiles := profiles example_store @ [carol_profile]\<rparr>"] example_signup
  have "length (filter (\<lambda>p. p_id p = u_id carol)
     (profiles (example_store\<lparr>auth_users := auth_users example_store @ [carol],
                               profiles := profiles example_store @ [carol_profile]\<rparr>))) = 1"
    by blast
  then have one: "length (filter (\<lambda>p. p_id p = ''carol'')
     (profiles (example_store\<lparr>auth_users := auth_users example_store @ [carol],
                               profiles := profiles example_store @ [carol_profile]\<rparr>))) = 1"
    by (simp add: carol_def)
  have name: "p_full_name carol_profile = Some ''Carol Q''"
    by (simp add: carol_profile_def)
  show ?thesis by (intro conjI example_signup one name)
qed

section \<open>Milestones created through the modal\<close>

lemma milestone_payload_keys:
  "Milestone_goal_id \<notin> fst ` set (milestone_payload user_id formData)"
  by (simp add: milestone_payload_def)

lemma milestone_payload_no_goal:
  "column_text (milestone_payload user_id formData) Milestone_goal_id = None"
  by (simp add: milestone_payload_def column_text_def)

lemma insert_milestones_row:
  assumes "insert_milestones io uid now new_id payload s = Inr (r, s')"
  shows "m_goal_id r = column_text payload Milestone_goal_id"
    and "milestones s' = milestones s @ [r]"
  using assms
  by (auto simp: insert_milestones_def Let_def split: sum.splits option.splits if_splits)

lemma handleAddMilestone_inserts:
  "filter is_insert (handleAddMilestone user formData err) =
     (case user of
        None \<Rightarrow> []
      | Some user_id \<Rightarrow> [Request_insert_milestone (milestone_payload user_id formData)])"
  by (cases user) (simp_all add: handleAddMilestone_def)

text \<open>
  C9. The only insert of \<open>handleAddMilestone\<close> sends an object that does not name
  \<open>goal_id\<close>, whatever the form holds, and the milestone such an insert creates has
  no goal reference. The column itself takes a reference: the same object with a
  \<open>goal_id\<close> creates a milestone that carries it.
\<close>

theorem ui_milestones_have_no_goal:
  "filter is_insert (handleAddMilestone user formData err) =
     (case user of
        None \<Rightarrow> []
      | Some user_id \<Rightarrow> [Request_insert_milestone (milestone_payload user_id formData)]) \<and>
   Milestone_goal_id \<notin> fst ` set (milestone_payload user_id formData) \<and>
   (insert_milestones io uid now new_id (milestone_payload user_id formData) s = Inr (r, s') \<longrightarrow>
      m_goal_id r = None \<and> milestones s' = milestones s @ [r]) \<and>
   (insert_milestones io uid now new_id
      ((Milestone_goal_id, Json_string goal_id) # milestone_payload user_id formData) s
        = Inr (r, s') \<longrightarrow>
      m_goal_id r = Some goal_id)"
proof (intro conjI impI)
  show "filter is_insert (handleAddMilestone user formData err) =
     (case user of
        None \<Rightarrow> []
      | Some user_id \<Rightarrow> [Request_insert_milestone (milestone_payload user_id formData)])"
    by (rule handleAddMilestone_inserts)
  show "Milestone_goal_id \<notin> fst ` set (milestone_payload user_id formData)"
    by (rule milestone_payload_keys)
next
  assume ok: "insert_milestones io uid now new_id (milestone_payload user_id formData) s = Inr (r, s')"
  show "m_goal_id r = None"
    using insert_milestones_row(1) [OF ok] by (simp add: milestone_payload_no_goal)
  show "milestones s' = milestones s @ [r]"
    by (rule insert_milestones_row(2) [OF ok])
next
  assume ok: "insert_milestones io uid now new_id
      ((Milestone_goal_id, Json_string goal_id) # milestone_payload user_id formData) s
        = Inr (r, s')"
  show "m_goal_id r = Some goal_id"
    using insert_milestones_row(1) [OF ok] by (simp add: column_text_def)
qed

lemma example_milestone_insert:
  "insert_milestones example_input (Some ''alice'') 700 ''m9''
     (milestone_payload ''alice'' milestone_form) example_store =
   Inr (new_milestone, example_store\<lparr>milestones := milestones example_store @ [new_milestone]\<rparr>)"
  by (simp add: insert_milestones_def milestone_payload_def milestone_form_def example_input_def
      example_store_def example_milestone_def new_milestone_def column_text_def cast_column_def
      as_string_def or_null_def auth_uid_is_def Let_def)

theorem ui_milestones_have_no_goal_witness:
  "handleAddMilestone (Some ''alice'') milestone_form None =
     [Set_loading True, Request_insert_milestone (milestone_payload ''alice'' milestone_form),
      Toast_success ''Milestone added!'', On_open_change False, Set_loading False] \<and>
   insert_milestones example_input (Some ''alice'') 700 ''m9''
     (milestone_payload ''alice'' milestone_form) example_store =
     Inr (new_milestone, example_store\<lparr>milestones := milestones example_store @ [new_milestone]\<rparr>) \<and>
   m_goal_id new_milestone = None"
proof -
  have handled: "handleAddMilestone (Some ''alice'') milestone_form None =
     [Set_loading True, Request_insert_milestone (milestone_payload ''alice'' milestone_form),
      Toast_success ''Milestone added!'', On_open_change False, Set_loading False]"
    by (simp add: handleAddMilestone_def)
  from ui_milestones_have_no_goal [of "Some ''alice''" milestone_form None "''alice''"
      example_input "Some ''alice''" 700 "''m9''" example_store new_milestone
      "example_store\<lparr>milestones := milestones example_store @ [new_milestone]\<rparr>"]
    example_milestone_insert
  have unlinked: "m_goal_id new_milestone = None"
    by blast
  show ?thesis by (intro conjI handled example_milestone_insert unlinked)
qed

section \<open>The date of a task or time block created through the modal\<close>

lemma handleAddTask_parts:
  "handleAddTask today (Some user_id) formData err =
     handleAddTask_start today (Some user_id) formData @ handleAddTask_settle err"
  by (simp add: handleAddTask_def handleAddTask_start_def handleAddTask_settle_def)

lemma handleAddTimeBlock_parts:
  "handleAddTimeBlock today (Some user_id) formData err =
     handleAddTimeBlock_start today (Some user_id) formData @ handleAddTimeBlock_settle err"
  by (simp add: handleAddTimeBlock_def handleAddTimeBlock_start_def
      handleAddTimeBlock_settle_def)

lemma task_payload_date:
  "date_field (Request_insert_task (task_payload today user_id formData)) =
     Some (Json_string today)"
  by (simp add: task_payload_def)

lemma time_block_payload_date:
  "date_field (Request_insert_time_block (time_block_payload today user_id formData)) =
     Some (Json_string today)"
  by (simp add: time_block_payload_def)

lemma modal_effect_clock: "clock_day (modal_effect m e) = clock_day m"
  by (cases e) (simp_all add: modal_effect_def)

lemma modal_effects_clock: "clock_day (foldl modal_effect m es) = clock_day m"
  by (induction es arbitrary: m) (simp_all add: modal_effect_clock)

lemma modal_effect_today:
  "bound_today (modal_effect m e) = bound_today m \<or> bound_today (modal_effect m e) = clock_day m"
  by (cases e) (simp_all add: modal_effect_def)

lemma modal_effects_today:
  "bound_today (foldl modal_effect m es) = bound_today m \<or>
   bound_today (foldl modal_effect m es) = clock_day m"
proof (induction es arbitrary: m)
  case Nil
  show ?case by simp
next
  case (Cons e es)
  from Cons.IH [of "modal_effect m e"] modal_effect_today [of m e] show ?case
    by (auto simp: modal_effect_clock)
qed

lemma modal_step_clock:
  assumes "\<forall>day. ev \<noteq> Day_changes day"
  shows "clock_day (modal_step m ev) = clock_day m"
  using assms by (cases ev) (simp_all add: modal_effects_clock modal_effect_clock)

lemma modal_step_today:
  "bound_today (modal_step m ev) = bound_today m \<or> bound_today (modal_step m ev) = clock_day m"
  by (cases ev) (simp_all add: modal_effects_today modal_effect_today)

lemma modal_run_same_day:
  assumes "bound_today m = clock_day m" and "\<forall>day. Day_changes day \<notin> set events"
  shows "bound_today (foldl modal_step m events) = clock_day m \<and>
         clock_day (foldl modal_step m events) = clock_day m"
  using assms
proof (induction events arbitrary: m)
  case Nil
  then show ?case by simp
next
  case (Cons ev events)
  from Cons.prems(2) have ev: "\<forall>day. ev \<noteq> Day_changes day"
    and rest: "\<forall>day. Day_changes day \<notin> set events"
    by auto
  have clock: "clock_day (modal_step m ev) = clock_day m"
    by (rule modal_step_clock [OF ev])
  from modal_step_today [of m ev] Cons.prems(1)
  have "bound_today (modal_step m ev) = clock_day (modal_step m ev)"
    by (auto simp: clock)
  from Cons.IH [OF this rest] show ?case
    by (simp add: clock)
qed

lemma submit_task_logged:
  "submitted (modal_step m (Submit_task (Some user_id) formData)) =
     submitted m @
       [(clock_day m, Request_insert_task (task_payload (bound_today m) user_id formData))]"
  by (simp add: handleAddTask_start_def modal_effect_def)

lemma submit_time_block_logged:
  "submitted (modal_step m (Submit_time_block (Some user_id) formData)) =
     submitted m @
       [(clock_day m,
         Request_insert_time_block (time_block_payload (bound_today m) user_id formData))]"
  by (simp add: handleAddTimeBlock_start_def modal_effect_def)

lemma submit_renders:
  assumes "\<not> loading m"
  shows "bound_today (modal_step m (Submit_task (Some user_id) formData)) = clock_day m"
    and "bound_today (modal_step m (Submit_time_block (Some user_id) formData)) = clock_day m"
  using assms
  by (simp_all add: handleAddTask_start_def handleAddTimeBlock_start_def modal_effect_def)

lemma settle_renders:
  assumes "loading m"
  shows "bound_today (modal_step m (Task_settles err)) = clock_day m"
    and "bound_today (modal_step m (Time_block_settles err)) = clock_day m"
  using assms
  by (simp_all add: handleAddTask_settle_def handleAddTimeBlock_settle_def modal_effect_def)

text \<open>
  C10, as the code has it. A submit of a task or of a time block issues one insert, whose
  date field is the \<open>today\<close> its handler was bound with, whatever the form holds and
  whatever the day is at the submission. \<open>today\<close> is bound by the render: an event
  either leaves it as it is or is a render and binds it to the day of that moment. The
  mount and every later render do so, among them the render that follows a submit (the
  handler sets the loading flag) and the one that follows the answer (the handler clears
  it); the passing of a day does not. So the date is the day of the latest render, and
  that is the day of the submission as long as the day has not changed since.
\<close>

theorem inserts_carry_bound_today:
  "submitted (modal_step m (Submit_task (Some user_id) formData)) =
     submitted m @
       [(clock_day m, Request_insert_task (task_payload (bound_today m) user_id formData))] \<and>
   submitted (modal_step m (Submit_time_block (Some user_id) formData)) =
     submitted m @
       [(clock_day m,
         Request_insert_time_block (time_block_payload (bound_today m) user_id formData))] \<and>
   date_field (Request_insert_task (task_payload today user_id formData)) =
     Some (Json_string today) \<and>
   date_field (Request_insert_time_block (time_block_payload today user_id formData)) =
     Some (Json_string today) \<and>
   handleAddTask today (Some user_id) formData err =
     handleAddTask_start today (Some user_id) formData @ handleAddTask_settle err \<and>
   handleAddTimeBlock today (Some user_id) formData err =
     handleAddTimeBlock_start today (Some user_id) formData @ handleAddTimeBlock_settle err \<and>
   bound_today (AddItemModal day []) = day \<and>
   clock_day (AddItemModal day []) = day \<and>
   bound_today (modal_step m Render) = clock_day m \<and>
   bound_today (modal_step m (Day_changes day)) = bound_today m \<and>
   (bound_today (modal_step m ev) = bound_today m \<or>
    bound_today (modal_step m ev) = clock_day m) \<and>
   (\<not> loading m \<longrightarrow>
      bound_today (modal_step m (Submit_task (Some user_id) formData)) = clock_day m \<and>
      bound_today (modal_step m (Submit_time_block (Some user_id) formData)) = clock_day m) \<and>
   (loading m \<longrightarrow>
      bound_today (modal_step m (Task_settles err)) = clock_day m \<and>
      bound_today (modal_step m (Time_block_settles err)) = clock_day m) \<and>
   (bound_today m = clock_day m \<and> (\<forall>day. Day_changes day \<notin> set events) \<longrightarrow>
      bound_today (foldl modal_step m events) = clock_day m \<and>
      clock_day (foldl modal_step m events) = clock_day m)"
proof -
  have mounted: "bound_today (AddItemModal day []) = day" "clock_day (AddItemModal day []) = day"
    by (simp_all add: AddItemModal_def)
  have rendered: "bound_today (modal_step m Render) = clock_day m"
    by simp
  have passing: "bound_today (modal_step m (Day_changes day)) = bound_today m"
    by simp
  have on_submit: "\<not> loading m \<longrightarrow>
      bound_today (modal_step m (Submit_task (Some user_id) formData)) = clock_day m \<and>
      bound_today (modal_step m (Submit_time_block (Some user_id) formData)) = clock_day m"
    by (intro impI conjI submit_renders)
  have on_answer: "loading m \<longrightarrow>
      bound_today (modal_step m (Task_settles err)) = clock_day m \<and>
      bound_today (modal_step m (Time_block_settles err)) = clock_day m"
    by (intro impI conjI settle_renders)
  have same_day: "bound_today m = clock_day m \<and> (\<forall>day. Day_changes day \<notin> set events) \<longrightarrow>
      bound_today (foldl modal_step m events) = clock_day m \<and>
      clock_day (foldl modal_step m events) = clock_day m"
    using modal_run_same_day [of m events] by blast
  show ?thesis
    by (intro conjI submit_task_logged submit_time_block_logged task_payload_date
        time_block_payload_date handleAddTask_parts handleAddTimeBlock_parts mounted rendered
        passing modal_step_today on_submit on_answer same_day)
qed

lemma example_modal_opened:
  "AddItemModal ''2025-03-01'' [Open_change True, Day_changes ''2025-03-02''] =
     \<lparr>clock_day = ''2025-03-02'', bound_today = ''2025-03-01'', loading = False,
      modal_open = True, submitted = []\<rparr>"
  by (simp add: AddItemModal_def modal_effect_def)

theorem inserts_carry_bound_today_witness:
  "\<not> loading (AddItemModal ''2025-03-01'' [Open_change True, Day_changes ''2025-03-02'']) \<and>
   bound_today (modal_step
      (AddItemModal ''2025-03-01'' [Open_change True, Day_changes ''2025-03-02''])
      (Submit_task (Some ''alice'') example_form)) = ''2025-03-02'' \<and>
   loading (AddItemModal ''2025-03-01''
      [Open_change True, Day_changes ''2025-03-02'', Submit_task (Some ''alice'') example_form]) \<and>
   submitted (AddItemModal ''2025-03-01''
      [Open_change True, Day_changes ''2025-03-02'', Submit_task (Some ''alice'') example_form,
       Task_settles (Some Transport_failure), Submit_task (Some ''alice'') example_form]) =
     [(''2025-03-02'', Request_insert_task (task_payload ''2025-03-01'' ''alice'' example_form)),
      (''2025-03-02'', Request_insert_task (task_payload ''2025-03-02'' ''alice'' example_form))] \<and>
   bound_today (AddItemModal ''2025-03-01'' []) = clock_day (AddItemModal ''2025-03-01'' []) \<and>
   (\<forall>day. Day_changes day \<notin>
      set [Open_change True, Submit_task (Some ''alice'') example_form, Task_settles None]) \<and>
   bound_today (foldl modal_step (AddItemModal ''2025-03-01'' [])
      [Open_change True, Submit_task (Some ''alice'') example_form, Task_settles None]) =
     ''2025-03-01''"
proof -
  let ?opened = "AddItemModal ''2025-03-01'' [Open_change True, Day_changes ''2025-03-02'']"
  let ?once = "modal_step ?opened (Submit_task (Some ''alice'') example_form)"
  let ?failed = "modal_step ?once (Task_settles (Some Transport_failure))"
  let ?mounted = "AddItemModal ''2025-03-01'' []"
  have idle: "\<not> loading ?opened"
    by (simp add: example_modal_opened)
  have clock: "clock_day ?opened = ''2025-03-02''"
    by (simp add: example_modal_opened)
  from inserts_carry_bound_today [of ?opened "''alice''" example_form] idle
  have "bound_today ?once = clock_day ?opened"
    by blast
  then have rebound: "bound_today ?once = ''2025-03-02''"
    by (simp only: clock)
  have once: "AddItemModal ''2025-03-01''
      [Open_change True, Day_changes ''2025-03-02'', Submit_task (Some ''alice'') example_form] =
      ?once"
    by (simp add: AddItemModal_def)
  have busy: "loading ?once"
    by (simp add: example_modal_opened handleAddTask_start_def modal_effect_def)
  have clock_once: "clock_day ?once = ''2025-03-02''"
    by (simp add: example_modal_opened handleAddTask_start_def modal_effect_def)
  from inserts_carry_bound_today [of ?once _ _ _ "Some Transport_failure"] busy
  have "bound_today ?failed = clock_day ?once"
    by blast
  then have retry_today: "bound_today ?failed = ''2025-03-02''"
    by (simp only: clock_once)
  have clock_failed: "clock_day ?failed = ''2025-03-02''"
    by (simp add: example_modal_opened handleAddTask_start_def handleAddTask_settle_def
        modal_effect_def)
  have first: "submitted ?once =
      [(''2025-03-02'', Request_insert_task (task_payload ''2025-03-01'' ''alice'' example_form))]"
    using inserts_carry_bound_today [of ?opened "''alice''" example_form]
    by (simp add: example_modal_opened)
  have kept: "submitted ?failed = submitted ?once"
    by (simp add: handleAddTask_settle_def modal_effect_def)
  have "submitted (modal_step ?failed (Submit_task (Some ''alice'') example_form)) =
      submitted ?failed @
        [(clock_day ?failed,
          Request_insert_task (task_payload (bound_today ?failed) ''alice'' example_form))]"
    using inserts_carry_bound_today [of ?failed "''alice''" example_form] by blast
  then have "submitted (modal_step ?failed (Submit_task (Some ''alice'') example_form)) =
     [(''2025-03-02'', Request_insert_task (task_payload ''2025-03-01'' ''alice'' example_form)),
      (''2025-03-02'', Request_insert_task (task_payload ''2025-03-02'' ''alice'' example_form))]"
    by (simp only: kept first retry_today clock_failed append.simps)
  moreover have "AddItemModal ''2025-03-01''
      [Open_change True, Day_changes ''2025-03-02'', Submit_task (Some ''alice'') example_form,
       Task_settles (Some Transport_failure), Submit_task (Some ''alice'') example_form] =
      modal_step ?failed (Submit_task (Some ''alice'') example_form)"
    by (simp add: AddItemModal_def)
  ultimately have retried: "submitted (AddItemModal ''2025-03-01''
      [Open_change True, Day_changes ''2025-03-02'', Submit_task (Some ''alice'') example_form,
       Task_settles (Some Transport_failure), Submit_task (Some ''alice'') example_form]) =
     [(''2025-03-02'', Request_insert_task (task_payload ''2025-03-01'' ''alice'' example_form)),
      (''2025-03-02'', Request_insert_task (task_payload ''2025-03-02'' ''alice'' example_form))]"
    by (simp only:)
  have fresh: "bound_today ?mounted = clock_day ?mounted"
    by (simp add: AddItemModal_def)
  have quiet: "\<forall>day. Day_changes day \<notin>
      set [Open_change True, Submit_task (Some ''alice'') example_form, Task_settles None]"
    by simp
  from inserts_carry_bound_today [of ?mounted _ _ _ _ _ _
      "[Open_change True, Submit_task (Some ''alice'') example_form, Task_settles None]"]
    fresh quiet
  have "bound_today (foldl modal_step ?mounted
      [Open_change True, Submit_task (Some ''alice'') example_form, Task_settles None]) =
      clock_day ?mounted"
    by blast
  then have same_day: "bound_today (foldl modal_step ?mounted
      [Open_change True, Submit_task (Some ''alice'') example_form, Task_settles None]) =
      ''2025-03-01''"
    by (simp add: AddItemModal_def)
  show ?thesis
    using idle rebound busy retried fresh quiet same_day by (simp only: once simp_thms)
qed

text \<open>
  The date field is not always the day of the submission: a modal opened on the first of
  March and submitted once the day has changed inserts a task, or a time block, dated
  the first of March on the second.
\<close>

theorem submission_day_counterexample:
  "submitted (AddItemModal ''2025-03-01''
      [Open_change True, Day_changes ''2025-03-02'',
       Submit_task (Some ''alice'') example_form]) =
     [(''2025-03-02'', Request_insert_task (task_payload ''2025-03-01'' ''alice'' example_form))] \<and>
   date_field (Request_insert_task (task_payload ''2025-03-01'' ''alice'' example_form)) =
     Some (Json_string ''2025-03-01'') \<and>
   date_field (Request_insert_task (task_payload ''2025-03-01'' ''alice'' example_form)) \<noteq>
     Some (Json_string ''2025-03-02'') \<and>
   submitted (AddItemModal ''2025-03-01''
      [Open_change True, Day_changes ''2025-03-02'',
       Submit_time_block (Some ''alice'') example_form]) =
     [(''2025-03-02'',
       Request_insert_time_block (time_block_payload ''2025-03-01'' ''alice'' example_form))] \<and>
   date_field (Request_insert_time_block (time_block_payload ''2025-03-01'' ''alice'' example_form))
     \<noteq> Some (Json_string ''2025-03-02'')"
  by (simp add: AddItemModal_def modal_effect_def handleAddTask_start_def
      handleAddTimeBlock_start_def task_payload_def time_block_payload_def)

end
